theory Spec2Isabelle
  imports Main "HOL-Library.AList"
begin

section \<open>Time\<close>

text \<open>
  Go's \<^verbatim>\<open>time.Time\<close> and \<^verbatim>\<open>time.Duration\<close> are modelled as integers counting
  nanoseconds. \<^verbatim>\<open>t.After(u)\<close> is \<open>u < t\<close>, \<^verbatim>\<open>t.Add(d)\<close> is \<open>t + d\<close> and
  \<^verbatim>\<open>time.Since(t)\<close> read at instant \<open>now\<close> is \<open>now - t\<close>. Every read of the clock is an
  explicit argument of the function that reads it.
\<close>

type_synonym time = int
type_synonym duration = int

definition Second :: duration where
  "Second = 1000000000"

definition Minute :: duration where
  "Minute = 60 * Second"

section \<open>ratelimit.go\<close>

record RateLimiter =
  limits :: "string \<rightharpoonup> time list"
  maxMessages :: int
  window :: duration

definition NewRateLimiter :: "int \<Rightarrow> duration \<Rightarrow> RateLimiter" where
  "NewRateLimiter maxM win = \<lparr>limits = Map.empty, maxMessages = maxM, window = win\<rparr>"

text \<open>Reading a Go map at an absent key gives the zero value, here the nil slice.\<close>

definition limits_at :: "RateLimiter \<Rightarrow> string \<Rightarrow> time list" where
  "limits_at r token = (case limits r token of None \<Rightarrow> [] | Some ts \<Rightarrow> ts)"

text \<open>
  The loop \<^verbatim>\<open>for _, t := range r.limits[token] { if t.After(cutoff) { recent = append(recent, t) } }\<close>
  with \<open>recent\<close> as the accumulator.
\<close>

fun collect_recent :: "time \<Rightarrow> time list \<Rightarrow> time list \<Rightarrow> time list" where
  "collect_recent cutoff recent [] = recent"
| "collect_recent cutoff recent (t # ts) =
     collect_recent cutoff (if cutoff < t then recent @ [t] else recent) ts"

text \<open>
  \<open>Allow r token now1 now2\<close>: \<open>now1\<close> is the clock read for the cutoff, \<open>now2\<close> the clock read
  for the appended timestamp. The result is the returned boolean and the limiter afterwards.
\<close>

definition Allow :: "RateLimiter \<Rightarrow> string \<Rightarrow> time \<Rightarrow> time \<Rightarrow> bool \<times> RateLimiter" where
  "Allow r token now1 now2 =
     (let cutoff = now1 + (- window r);
          recent = collect_recent cutoff [] (limits_at r token)
      in if int (length recent) \<ge> maxMessages r
         then (False, r\<lparr>limits := (limits r)(token \<mapsto> recent)\<rparr>)
         else (True, r\<lparr>limits := (limits r)(token \<mapsto> recent @ [now2])\<rparr>))"

section \<open>translate.go: the translator and its cache\<close>

record cacheEntry =
  entry_text :: string
  createdAt :: time

record Translator =
  url :: string
  model :: string
  cacheTTL :: duration
  cache :: "string \<rightharpoonup> cacheEntry"

definition NewTranslator :: "string \<Rightarrow> string \<Rightarrow> duration \<Rightarrow> Translator" where
  "NewTranslator u m ttl = \<lparr>url = u, model = m, cacheTTL = ttl, cache = Map.empty\<rparr>"

text \<open>
  The external generation service. A request is the endpoint, the model and the prompt.
  \<open>respond\<close> gives the service's answer to a request after a given history of requests
  (\<open>None\<close> when the call fails in transport or decoding), so two calls with the same prompt
  may be answered differently; \<open>requests\<close> logs every request that was sent.
\<close>

type_synonym request = "string \<times> string \<times> string"

record Ollama =
  respond :: "request list \<Rightarrow> request \<Rightarrow> string option"
  requests :: "request list"

definition generate :: "Translator \<Rightarrow> Ollama \<Rightarrow> string \<Rightarrow> string option \<times> Ollama" where
  "generate t ol prompt =
     (let req = (url t @ ''/api/generate'', model t, prompt)
      in (respond ol (requests ol) req, ol\<lparr>requests := requests ol @ [req]\<rparr>))"

definition detect_prompt :: "string \<Rightarrow> string" where
  "detect_prompt txt =
     ''What language is this text? Reply with ONLY the ISO language code (e.g. en, pt, es, fr): '' @ txt"

definition DetectLanguage :: "Translator \<Rightarrow> Ollama \<Rightarrow> string \<Rightarrow> string option \<times> Ollama" where
  "DetectLanguage t ol txt = generate t ol (detect_prompt txt)"

definition translate_prompt :: "string \<Rightarrow> string \<Rightarrow> string \<Rightarrow> string" where
  "translate_prompt txt fromLanguage toLanguage =
     ''Translate the following text from '' @ fromLanguage @ '' to '' @ toLanguage @
     ''. Return ONLY the translation, nothing else: '' @ txt"

definition cache_key :: "string \<Rightarrow> string \<Rightarrow> string \<Rightarrow> string" where
  "cache_key txt fromLanguage toLanguage = fromLanguage @ '':'' @ toLanguage @ '':'' @ txt"

text \<open>
  \<open>Translate t ol txt from to now1 now2\<close>: \<open>now1\<close> is the clock read of \<^verbatim>\<open>time.Since\<close>,
  \<open>now2\<close> the clock read of \<^verbatim>\<open>time.Now()\<close> when the entry is stored. The result is the
  returned text (\<open>None\<close> for a non-nil error), the translator and the service afterwards.
  For an absent key Go reads the zero entry and still computes \<open>expired\<close>, but the test is
  \<^verbatim>\<open>!ok || expired\<close>: the absent key alone decides, as in the first case below.
\<close>

definition Translate ::
  "Translator \<Rightarrow> Ollama \<Rightarrow> string \<Rightarrow> string \<Rightarrow> string \<Rightarrow> time \<Rightarrow> time
     \<Rightarrow> string option \<times> Translator \<times> Ollama" where
  "Translate t ol txt fromLanguage toLanguage now1 now2 =
     (let prompt = translate_prompt txt fromLanguage toLanguage;
          key = cache_key txt fromLanguage toLanguage;
          miss = (case generate t ol prompt of
                    (None, ol') \<Rightarrow> (None, t, ol')
                  | (Some translated, ol') \<Rightarrow>
                      (Some translated,
                       t\<lparr>cache := (cache t)(key \<mapsto> \<lparr>entry_text = translated, createdAt = now2\<rparr>)\<rparr>,
                       ol'))
      in case cache t key of
           None \<Rightarrow> miss
         | Some translated \<Rightarrow>
             if now1 - createdAt translated > cacheTTL t then miss
             else (Some (entry_text translated), t, ol))"

section \<open>client.go, room.go, message.go: the data model\<close>

text \<open>
  \<^verbatim>\<open>*Client\<close> and \<^verbatim>\<open>*Room\<close> are addresses into two heaps of the store below; a pointer
  that may be nil has an \<open>option\<close> type. A websocket connection and a timer are identified
  by a number.
\<close>

type_synonym client_ptr = nat
type_synonym room_ptr = nat
type_synonym conn = nat
type_synonym timer_id = nat

record Client =
  Token :: string
  Name :: string
  Language :: string
  Connection :: "conn option"

datatype RoomStatus = RoomWaiting | RoomActive | RoomClosed | RoomClosing

record ChatMessage =
  Type :: string
  RoomID :: string
  From :: string
  Content :: string
  TranslatedContent :: string

record Room =
  ID :: string
  Customer :: "client_ptr option"
  Agent :: "client_ptr option"
  Status :: RoomStatus
  Messages :: "ChatMessage list"
  CloseTimer :: "timer_id option"

text \<open>The frames the server writes to a websocket connection (message.go).\<close>

datatype outbound =
    OutMessage ChatMessage
  | OutRoomJoined string
  | OutChatEnded string string
  | OutError string

text \<open>
  A timer made by \<^verbatim>\<open>time.AfterFunc\<close> in handleEndChat: the instant it is due and the room
  its callback closes over. The local variables of a running websocket handler form a session.
\<close>

record timer =
  due :: time
  timer_room :: room_ptr

record session =
  s_client :: client_ptr
  s_room :: room_ptr
  s_recipient :: "client_ptr option"

section \<open>hub.go\<close>

record Hub =
  Clients :: "(string \<times> client_ptr) list"
  Rooms :: "(string \<times> room_ptr) list"

definition NewHub :: Hub where
  "NewHub = \<lparr>Clients = [], Rooms = []\<rparr>"

text \<open>
  The whole state of the server process: the two heaps with their allocation counters, the
  hub, the armed timers, the running websocket sessions by connection, the limiter, the
  translator, the external service, and every frame written to a connection, in order.
\<close>

record world =
  clients :: "client_ptr \<Rightarrow> Client"
  rooms :: "room_ptr \<Rightarrow> Room"
  nclients :: nat
  nrooms :: nat
  hub :: Hub
  timers :: "timer_id \<rightharpoonup> timer"
  ntimers :: nat
  sessions :: "conn \<rightharpoonup> session"
  nconns :: nat
  limiter :: RateLimiter
  translator :: Translator
  ollama :: Ollama
  wire :: "(conn \<times> outbound) list"

definition NewClient :: "world \<Rightarrow> string \<Rightarrow> string \<Rightarrow> string \<Rightarrow> client_ptr \<times> world" where
  "NewClient w token name language =
     (nclients w,
      w\<lparr>clients := (clients w)(nclients w :=
           \<lparr>Token = token, Name = name, Language = language, Connection = None\<rparr>),
        nclients := Suc (nclients w)\<rparr>)"

definition NewRoom :: "world \<Rightarrow> string \<Rightarrow> client_ptr option \<Rightarrow> room_ptr \<times> world" where
  "NewRoom w rid customer =
     (nrooms w,
      w\<lparr>rooms := (rooms w)(nrooms w :=
           \<lparr>ID = rid, Customer = customer, Agent = None, Status = RoomWaiting,
            Messages = [], CloseTimer = None\<rparr>),
        nrooms := Suc (nrooms w)\<rparr>)"

definition AddClient :: "world \<Rightarrow> client_ptr \<Rightarrow> world" where
  "AddClient w client =
     w\<lparr>hub := (hub w)\<lparr>Clients := AList.update (Token (clients w client)) client (Clients (hub w))\<rparr>\<rparr>"

definition RemoveClient :: "world \<Rightarrow> string \<Rightarrow> world" where
  "RemoveClient w token = w\<lparr>hub := (hub w)\<lparr>Clients := AList.delete token (Clients (hub w))\<rparr>\<rparr>"

text \<open>\<open>token\<close> is the value \<^verbatim>\<open>generateToken()\<close> returns inside CreateRoom.\<close>

definition CreateRoom :: "world \<Rightarrow> string \<Rightarrow> client_ptr option \<Rightarrow> room_ptr \<times> world" where
  "CreateRoom w token customer =
     (let roomID = ''room_'' @ token;
          (room, w1) = NewRoom w roomID customer
      in (room, w1\<lparr>hub := (hub w1)\<lparr>Rooms := AList.update roomID room (Rooms (hub w1))\<rparr>\<rparr>))"

text \<open>
  The four errors of JoinRoom, each with the room id it was called with; \<open>error_message\<close>
  is the text \<^verbatim>\<open>fmt.Errorf\<close> builds.
\<close>

datatype join_error =
    NotFound string
  | InvalidState string
  | AlreadyOccupied string
  | MissingCustomer string

fun error_message :: "join_error \<Rightarrow> string" where
  "error_message (NotFound roomID) = ''room not found: '' @ roomID"
| "error_message (InvalidState roomID) = ''room is not available: '' @ roomID"
| "error_message (AlreadyOccupied roomID) = ''agent is already in room: '' @ roomID"
| "error_message (MissingCustomer roomID) = ''customer is required: '' @ roomID"

definition JoinRoom :: "world \<Rightarrow> string \<Rightarrow> client_ptr option \<Rightarrow> join_error + room_ptr \<times> world" where
  "JoinRoom w roomID agent =
     (case map_of (Rooms (hub w)) roomID of
        None \<Rightarrow> Inl (NotFound roomID)
      | Some room \<Rightarrow>
          if Status (rooms w room) \<noteq> RoomWaiting then Inl (InvalidState roomID)
          else if Agent (rooms w room) \<noteq> None then Inl (AlreadyOccupied roomID)
          else if Customer (rooms w room) = None then Inl (MissingCustomer roomID)
          else Inr (room,
                 w\<lparr>rooms := (rooms w)(room := (rooms w room)\<lparr>Agent := agent, Status := RoomActive\<rparr>)\<rparr>))"

definition GetRoom :: "world \<Rightarrow> string \<Rightarrow> room_ptr option" where
  "GetRoom w roomID = map_of (Rooms (hub w)) roomID"

definition IsAgentInRoom :: "world \<Rightarrow> string \<Rightarrow> bool" where
  "IsAgentInRoom w agentToken =
     list_ex (\<lambda>(rid, room).
        (case Agent (rooms w room) of
           None \<Rightarrow> False
         | Some a \<Rightarrow> Token (clients w a) = agentToken \<and> Status (rooms w room) = RoomActive))
       (Rooms (hub w))"

definition RemoveRoom :: "world \<Rightarrow> string \<Rightarrow> world" where
  "RemoveRoom w roomID = w\<lparr>hub := (hub w)\<lparr>Rooms := AList.delete roomID (Rooms (hub w))\<rparr>\<rparr>"

definition GetClient :: "world \<Rightarrow> string \<Rightarrow> client_ptr option" where
  "GetClient w token = map_of (Clients (hub w)) token"

text \<open>Updating the object a pointer refers to.\<close>

definition room_set :: "world \<Rightarrow> room_ptr \<Rightarrow> (Room \<Rightarrow> Room) \<Rightarrow> world" where
  "room_set w room f = w\<lparr>rooms := (rooms w)(room := f (rooms w room))\<rparr>"

definition client_set :: "world \<Rightarrow> client_ptr \<Rightarrow> (Client \<Rightarrow> Client) \<Rightarrow> world" where
  "client_set w client f = w\<lparr>clients := (clients w)(client := f (clients w client))\<rparr>"

text \<open>\<^verbatim>\<open>conn.Write\<close>: the frame is recorded; a write error is ignored or logged by every caller.\<close>

definition conn_write :: "world \<Rightarrow> conn \<Rightarrow> outbound \<Rightarrow> world" where
  "conn_write w c out = w\<lparr>wire := wire w @ [(c, out)]\<rparr>"

text \<open>\<^verbatim>\<open>Timer.Stop\<close> disarms the timer; \<^verbatim>\<open>time.AfterFunc\<close> arms a new one.\<close>

definition timer_stop :: "world \<Rightarrow> timer_id \<Rightarrow> world" where
  "timer_stop w tid = w\<lparr>timers := (timers w)(tid := None)\<rparr>"

definition AfterFunc :: "world \<Rightarrow> time \<Rightarrow> duration \<Rightarrow> room_ptr \<Rightarrow> timer_id \<times> world" where
  "AfterFunc w now d room =
     (ntimers w,
      w\<lparr>timers := (timers w)(ntimers w \<mapsto> \<lparr>due = now + d, timer_room = room\<rparr>),
        ntimers := Suc (ntimers w)\<rparr>)"

section \<open>Strings\<close>

text \<open>
  A Go string is a sequence of bytes. \<^verbatim>\<open>strings.TrimSpace\<close> removes the leading and
  trailing white space code points in their UTF-8 encoding: tab, line feed, vertical tab,
  form feed, carriage return and space, U+0085 and U+00A0, and U+1680, U+2000 to U+200A,
  U+2028, U+2029, U+202F, U+205F and U+3000. No encoding in the list is a prefix or a suffix
  of another, and a byte sequence that is not one of them is not white space.
  \<^verbatim>\<open>strings.TrimPrefix\<close> is exact.
\<close>

definition space_runes :: "string list" where
  "space_runes =
     [[CHR 0x09], [CHR 0x0A], [CHR 0x0B], [CHR 0x0C], [CHR 0x0D], [CHR 0x20],
      [CHR 0xC2, CHR 0x85], [CHR 0xC2, CHR 0xA0],
      [CHR 0xE1, CHR 0x9A, CHR 0x80],
      [CHR 0xE2, CHR 0x80, CHR 0x80], [CHR 0xE2, CHR 0x80, CHR 0x81],
      [CHR 0xE2, CHR 0x80, CHR 0x82], [CHR 0xE2, CHR 0x80, CHR 0x83],
      [CHR 0xE2, CHR 0x80, CHR 0x84], [CHR 0xE2, CHR 0x80, CHR 0x85],
      [CHR 0xE2, CHR 0x80, CHR 0x86], [CHR 0xE2, CHR 0x80, CHR 0x87],
      [CHR 0xE2, CHR 0x80, CHR 0x88], [CHR 0xE2, CHR 0x80, CHR 0x89],
      [CHR 0xE2, CHR 0x80, CHR 0x8A],
      [CHR 0xE2, CHR 0x80, CHR 0xA8], [CHR 0xE2, CHR 0x80, CHR 0xA9],
      [CHR 0xE2, CHR 0x80, CHR 0xAF], [CHR 0xE2, CHR 0x81, CHR 0x9F],
      [CHR 0xE3, CHR 0x80, CHR 0x80]]"

text \<open>The number of bytes of the first of the given encodings that the string starts with, or 0.\<close>

definition leading :: "string list \<Rightarrow> string \<Rightarrow> nat" where
  "leading runes s =
     (case filter (\<lambda>r. take (length r) s = r) runes of [] \<Rightarrow> 0 | r # _ \<Rightarrow> length r)"

fun trim_leading :: "string list \<Rightarrow> string \<Rightarrow> string" where
  "trim_leading runes [] = []"
| "trim_leading runes (c # cs) =
     (if leading runes (c # cs) = 0 then c # cs
      else trim_leading runes (drop (leading runes (c # cs) - 1) cs))"

definition TrimSpace :: "string \<Rightarrow> string" where
  "TrimSpace s = rev (trim_leading (map rev space_runes) (rev (trim_leading space_runes s)))"

definition TrimPrefix :: "string \<Rightarrow> string \<Rightarrow> string" where
  "TrimPrefix s pre = (if take (length pre) s = pre then drop (length pre) s else s)"

section \<open>websocket.go\<close>

text \<open>
  \<open>prepareMessage w room sender recipient content now\<close> returns the outbound record and the
  state afterwards: the sender's language may have been detected and stored, the cache
  filled, the external service called. \<open>sender == room.Customer\<close> and
  \<open>recipient == room.Customer\<close> compare pointers.
\<close>

definition prepareMessage ::
  "world \<Rightarrow> room_ptr \<Rightarrow> client_ptr \<Rightarrow> client_ptr \<Rightarrow> string \<Rightarrow> time \<Rightarrow> ChatMessage \<times> world" where
  "prepareMessage w room sender recipient content now =
     (let msg = \<lparr>Type = ''message'', RoomID = ID (rooms w room), From = Name (clients w sender),
                 Content = content, TranslatedContent = []\<rparr>;
          detected =
            (if Some sender = Customer (rooms w room) \<and> Language (clients w sender) = []
             then (case DetectLanguage (translator w) (ollama w) content of
                     (None, ol') \<Rightarrow> Inl (w\<lparr>ollama := ol'\<rparr>)
                   | (Some lang, ol') \<Rightarrow>
                       Inr (client_set (w\<lparr>ollama := ol'\<rparr>) sender (\<lambda>c. c\<lparr>Language := TrimSpace lang\<rparr>)))
             else Inr w)
      in case detected of
           Inl w1 \<Rightarrow> (msg, w1)
         | Inr w1 \<Rightarrow>
             if Language (clients w1 sender) = [] \<or> Language (clients w1 recipient) = []
                \<or> Language (clients w1 sender) = Language (clients w1 recipient)
             then (msg, w1)
             else (case Translate (translator w1) (ollama w1) content
                          (Language (clients w1 sender)) (Language (clients w1 recipient)) now now of
                     (None, t', ol') \<Rightarrow> (msg, w1\<lparr>translator := t', ollama := ol'\<rparr>)
                   | (Some translated, t', ol') \<Rightarrow>
                       (let translated = TrimSpace translated;
                            w2 = w1\<lparr>translator := t', ollama := ol'\<rparr>
                        in if Some recipient = Customer (rooms w2 room)
                           then (msg\<lparr>Content := translated\<rparr>, w2)
                           else (msg\<lparr>TranslatedContent := translated\<rparr>, w2))))"

text \<open>
  What \<^verbatim>\<open>conn.Read\<close> and \<^verbatim>\<open>json.Unmarshal\<close> give for one inbound frame: a read error,
  a payload that does not decode, or the decoded content.
\<close>

datatype frame = ReadError | BadJson | Payload string

datatype loop_ctl = Continue | Break

text \<open>
  The customer's message while the room is closing. \<open>reopen_guard\<close> is the condition
  \<^verbatim>\<open>room.Status == RoomClosing && room.Customer != nil && room.Customer.Token == client.Token\<close>,
  \<open>reopen\<close> the body it guards: the close timer, if there is one, is stopped and cleared,
  and the status is set to waiting.
\<close>

definition reopen_guard :: "world \<Rightarrow> room_ptr \<Rightarrow> client_ptr \<Rightarrow> bool" where
  "reopen_guard w room client =
     (Status (rooms w room) = RoomClosing \<and>
      (case Customer (rooms w room) of
         None \<Rightarrow> False
       | Some cu \<Rightarrow> Token (clients w cu) = Token (clients w client)))"

definition reopen :: "world \<Rightarrow> room_ptr \<Rightarrow> world" where
  "reopen w room =
     room_set
       (case CloseTimer (rooms w room) of
          None \<Rightarrow> w
        | Some tid \<Rightarrow> room_set (timer_stop w tid) room (\<lambda>r. r\<lparr>CloseTimer := None\<rparr>))
       room (\<lambda>r. r\<lparr>Status := RoomWaiting\<rparr>)"

text \<open>
  One iteration of the read loop of handleWebSocket, on connection \<open>c\<close> with the handler's
  local variables \<open>s\<close>, taken at instant \<open>now\<close>: every clock read of the iteration gives
  \<open>now\<close>. The recipient's connection is read once more for the write; within the step it
  is the connection \<open>rc\<close> tested before.
\<close>

definition ws_iteration :: "world \<Rightarrow> conn \<Rightarrow> session \<Rightarrow> frame \<Rightarrow> time \<Rightarrow> loop_ctl \<times> world" where
  "ws_iteration w c s fr now =
     (case fr of
        ReadError \<Rightarrow> (Break, w)
      | BadJson \<Rightarrow> (Continue, w)
      | Payload content \<Rightarrow>
          (let client = s_client s; room = s_room s; recipient = s_recipient s;
               (ok, lim) = Allow (limiter w) (Token (clients w client)) now now;
               w1 = w\<lparr>limiter := lim\<rparr>
           in if \<not> ok then (Continue, conn_write w1 c (OutError ''rate limit exceeded''))
              else
                (let w2 = room_set w1 room (\<lambda>r. r\<lparr>Messages := Messages r @
                            [\<lparr>Type = ''message'', RoomID = ID r, From = Name (clients w1 client),
                              Content = content, TranslatedContent = []\<rparr>]\<rparr>)
                 in if Status (rooms w2 room) = RoomClosed
                    then (Break, conn_write w2 c (OutError ''room is closed''))
                    else
                      (let w3 = (if reopen_guard w2 room client then reopen w2 room else w2)
                       in case recipient of
                            None \<Rightarrow> (Continue, w3)
                          | Some rcp \<Rightarrow>
                              (case Connection (clients w3 rcp) of
                                 None \<Rightarrow> (Continue, w3)
                               | Some rc \<Rightarrow>
                                   (let (chatMsg, w4) = prepareMessage w3 room client rcp content now
                                    in (Continue, conn_write w4 rc (OutMessage chatMsg))))))))"

text \<open>The deferred calls of the handler: the client's connection is reset, the handler ends.\<close>

definition ws_cleanup :: "world \<Rightarrow> conn \<Rightarrow> session \<Rightarrow> world" where
  "ws_cleanup w c s =
     (client_set w (s_client s) (\<lambda>cl. cl\<lparr>Connection := None\<rparr>))\<lparr>sessions := (sessions w)(c := None)\<rparr>"

text \<open>
  The read loop over the frames that arrive on the connection, each with the instant at
  which it is handled. When the frames are used up the handler is blocked in \<^verbatim>\<open>conn.Read\<close>.
\<close>

fun ws_loop :: "world \<Rightarrow> conn \<Rightarrow> session \<Rightarrow> (frame \<times> time) list \<Rightarrow> world" where
  "ws_loop w c s [] = w"
| "ws_loop w c s ((fr, now) # rest) =
     (case ws_iteration w c s fr now of
        (Continue, w') \<Rightarrow> ws_loop w' c s rest
      | (Break, w') \<Rightarrow> ws_cleanup w' c s)"

text \<open>The history replay to a connecting agent: every stored message is prepared as sent by the customer.\<close>

fun replay :: "world \<Rightarrow> conn \<Rightarrow> room_ptr \<Rightarrow> client_ptr \<Rightarrow> client_ptr \<Rightarrow> ChatMessage list \<Rightarrow> time \<Rightarrow> world" where
  "replay w c room customer client [] now = w"
| "replay w c room customer client (m # ms) now =
     (let (chatMsg, w1) = prepareMessage w room customer client (Content m) now
      in replay (conn_write w1 c (OutMessage chatMsg)) c room customer client ms now)"

datatype connect_result =
    Refused string nat
  | AcceptFailed
  | Panicked
  | Connected conn session

text \<open>
  handleWebSocket up to the read loop. \<open>accepted\<close> tells whether \<^verbatim>\<open>websocket.Accept\<close>
  succeeds. \<^verbatim>\<open>room.Customer.Token\<close> is read without a nil check when the recipient is
  chosen: on a room without customer the handler panics and its deferred calls run.
\<close>

definition ws_connect :: "world \<Rightarrow> string \<Rightarrow> string \<Rightarrow> bool \<Rightarrow> time \<Rightarrow> connect_result \<times> world" where
  "ws_connect w token roomID accepted now =
     (if token = [] then (Refused ''token required'' 401, w)
      else if roomID = [] then (Refused ''room_id required'' 400, w)
      else case GetClient w token of
        None \<Rightarrow> (Refused ''invalid token'' 401, w)
      | Some client \<Rightarrow>
     (case GetRoom w roomID of
        None \<Rightarrow> (Refused ''room not found'' 404, w)
      | Some room \<Rightarrow>
          if (case Customer (rooms w room) of None \<Rightarrow> True | Some cu \<Rightarrow> Token (clients w cu) \<noteq> token) \<and>
             (case Agent (rooms w room) of None \<Rightarrow> True | Some a \<Rightarrow> Token (clients w a) \<noteq> token)
          then (Refused ''you are not in this room'' 403, w)
          else if \<not> accepted then (AcceptFailed, w)
          else
            (let c = nconns w;
                 w1 = client_set (w\<lparr>nconns := Suc (nconns w)\<rparr>) client (\<lambda>cl. cl\<lparr>Connection := Some c\<rparr>)
             in case Customer (rooms w1 room) of
                  None \<Rightarrow> (Panicked, client_set w1 client (\<lambda>cl. cl\<lparr>Connection := None\<rparr>))
                | Some cu \<Rightarrow>
                    (let recipient = (if Token (clients w1 cu) = Token (clients w1 client)
                                      then Agent (rooms w1 room) else Customer (rooms w1 room));
                         w2 = (if Some client = Agent (rooms w1 room)
                               then replay w1 c room cu client (Messages (rooms w1 room)) now
                               else w1);
                         s = \<lparr>s_client = client, s_room = room, s_recipient = recipient\<rparr>
                     in (Connected c s, w2\<lparr>sessions := (sessions w2)(c \<mapsto> s)\<rparr>)))))"

text \<open>A frame arrives on connection \<open>c\<close>: one iteration of that handler's loop, and its end on a break.\<close>

definition ws_receive :: "world \<Rightarrow> conn \<Rightarrow> frame \<Rightarrow> time \<Rightarrow> world" where
  "ws_receive w c fr now =
     (case sessions w c of
        None \<Rightarrow> w
      | Some s \<Rightarrow>
          (case ws_iteration w c s fr now of
             (Continue, w') \<Rightarrow> w'
           | (Break, w') \<Rightarrow> ws_cleanup w' c s))"

section \<open>The REST handlers (handleSetProfile, handleStartChat, handleJoinRoom, handleEndChat)\<close>

text \<open>
  A response is an \<^verbatim>\<open>http.Error\<close> with its text and status code, or one of the JSON bodies.
  A request is given by its method, the value of its Authorization header and its decoded
  body (\<open>None\<close> when the body is not valid JSON). The tokens \<^verbatim>\<open>generateToken()\<close> draws
  during a request are arguments. handleRooms and the health endpoint only read the state
  and are left out.
\<close>

datatype response =
    HttpError string nat
  | SetProfileResponse string
  | StartChatResponse string string
  | RoomJoinedResponse string
  | ChatEndedResponse string string

definition handleSetProfile ::
  "world \<Rightarrow> string \<Rightarrow> (string \<times> string) option \<Rightarrow> string \<Rightarrow> response \<times> world" where
  "handleSetProfile w method body token =
     (if method \<noteq> ''POST'' then (HttpError ''method not allowed'' 405, w)
      else case body of
        None \<Rightarrow> (HttpError ''invalid json'' 400, w)
      | Some (name, language) \<Rightarrow>
          if name = [] \<or> language = [] then (HttpError ''name and language are required'' 400, w)
          else
            (let (agent, w1) = NewClient w token name language;
                 w2 = AddClient w1 agent
             in (SetProfileResponse (Token (clients w2 agent)), w2)))"

definition handleStartChat ::
  "world \<Rightarrow> string \<Rightarrow> (string \<times> string) option \<Rightarrow> string \<Rightarrow> string \<Rightarrow> response \<times> world" where
  "handleStartChat w method body token roomToken =
     (if method \<noteq> ''POST'' then (HttpError ''method not allowed'' 405, w)
      else case body of
        None \<Rightarrow> (HttpError ''invalid json'' 400, w)
      | Some (name, content) \<Rightarrow>
          if name = [] \<or> content = [] then (HttpError ''name and content are required'' 400, w)
          else
            (let (customer, w1) = NewClient w token name [];
                 w2 = AddClient w1 customer;
                 (room, w3) = CreateRoom w2 roomToken (Some customer);
                 msg = \<lparr>Type = ''message'', RoomID = ID (rooms w3 room),
                        From = Name (clients w3 customer), Content = content,
                        TranslatedContent = []\<rparr>;
                 w4 = room_set w3 room (\<lambda>r. r\<lparr>Messages := Messages r @ [msg]\<rparr>)
             in (StartChatResponse (Token (clients w4 customer)) (ID (rooms w4 room)), w4)))"

definition handleJoinRoom ::
  "world \<Rightarrow> string \<Rightarrow> string \<Rightarrow> string option \<Rightarrow> response \<times> world" where
  "handleJoinRoom w method authorization body =
     (if method \<noteq> ''POST'' then (HttpError ''method not allowed'' 405, w)
      else
        (let token = TrimPrefix authorization ''Bearer ''
         in if token = [] then (HttpError ''token required'' 401, w)
            else case GetClient w token of
              None \<Rightarrow> (HttpError ''invalid token'' 401, w)
            | Some agent \<Rightarrow>
                if IsAgentInRoom w (Token (clients w agent))
                then (HttpError ''already in a room'' 409, w)
                else (case body of
                  None \<Rightarrow> (HttpError ''invalid json'' 400, w)
                | Some roomID \<Rightarrow>
                    (case JoinRoom w roomID (Some agent) of
                       Inl err \<Rightarrow> (HttpError (error_message err) 400, w)
                     | Inr (room, w1) \<Rightarrow>
                         (let w2 =
                                (case Customer (rooms w1 room) of
                                   None \<Rightarrow> w1
                                 | Some cu \<Rightarrow>
                                     (case Connection (clients w1 cu) of
                                        None \<Rightarrow> w1
                                      | Some c \<Rightarrow> conn_write w1 c (OutRoomJoined (ID (rooms w1 room)))))
                          in (RoomJoinedResponse (ID (rooms w2 room)), w2))))))"

text \<open>
  handleEndChat at instant \<open>now\<close>. The caller is taken for the customer when the room has a
  customer whose token is the caller's; every other caller takes the second branch.
\<close>

definition handleEndChat ::
  "world \<Rightarrow> string \<Rightarrow> string \<Rightarrow> string option \<Rightarrow> time \<Rightarrow> response \<times> world" where
  "handleEndChat w method authorization body now =
     (if method \<noteq> ''POST'' then (HttpError ''method not allowed'' 405, w)
      else
        (let token = TrimPrefix authorization ''Bearer ''
         in if token = [] then (HttpError ''token required'' 401, w)
            else case GetClient w token of
              None \<Rightarrow> (HttpError ''invalid token'' 401, w)
            | Some client \<Rightarrow>
           (case body of
              None \<Rightarrow> (HttpError ''invalid json'' 400, w)
            | Some roomID \<Rightarrow>
           (case GetRoom w roomID of
              None \<Rightarrow> (HttpError ''room not found'' 404, w)
            | Some room \<Rightarrow>
                (let (reason, other, w1) =
                       (if (case Customer (rooms w room) of
                              None \<Rightarrow> False
                            | Some cu \<Rightarrow> Token (clients w cu) = Token (clients w client))
                        then
                          (''customer_left'', Agent (rooms w room),
                           RemoveRoom (room_set w room (\<lambda>r. r\<lparr>Status := RoomClosed\<rparr>)) (ID (rooms w room)))
                        else
                          (let wa = room_set w room (\<lambda>r. r\<lparr>Status := RoomClosing, Agent := None\<rparr>);
                               (tid, wb) = AfterFunc wa now (5 * Minute) room
                           in (''agent_left'', Customer (rooms w room),
                               room_set wb room (\<lambda>r. r\<lparr>CloseTimer := Some tid\<rparr>))));
                     w2 = (case other of
                             None \<Rightarrow> w1
                           | Some oth \<Rightarrow>
                               (case Connection (clients w1 oth) of
                                  None \<Rightarrow> w1
                                | Some c \<Rightarrow> conn_write w1 c (OutChatEnded (ID (rooms w1 room)) reason)))
                 in (ChatEndedResponse (ID (rooms w2 room)) reason, w2))))))"

text \<open>
  The callback of the close timer, run when an armed timer is due: it marks the room
  closed, removes the room id from the hub and tells a connected customer.
\<close>

definition timer_fire :: "world \<Rightarrow> timer_id \<Rightarrow> time \<Rightarrow> world" where
  "timer_fire w tid now =
     (case timers w tid of
        None \<Rightarrow> w
      | Some t \<Rightarrow>
          if now < due t then w
          else
            (let room = timer_room t;
                 w1 = w\<lparr>timers := (timers w)(tid := None)\<rparr>;
                 w2 = room_set w1 room (\<lambda>r. r\<lparr>Status := RoomClosed\<rparr>);
                 w3 = RemoveRoom w2 (ID (rooms w2 room))
             in case Customer (rooms w3 room) of
                  None \<Rightarrow> w3
                | Some cu \<Rightarrow>
                    (case Connection (clients w3 cu) of
                       None \<Rightarrow> w3
                     | Some c \<Rightarrow> conn_write w3 c (OutChatEnded (ID (rooms w3 room)) ''closed''))))"

section \<open>main.go: the initial state and the runs of the server\<close>

definition empty_client :: Client where
  "empty_client = \<lparr>Token = [], Name = [], Language = [], Connection = None\<rparr>"

definition empty_room :: Room where
  "empty_room = \<lparr>ID = [], Customer = None, Agent = None, Status = RoomWaiting,
                  Messages = [], CloseTimer = None\<rparr>"

text \<open>
  The state \<^verbatim>\<open>main\<close> builds from the configuration, with nothing allocated, and the
  behaviour \<open>rsp\<close> of the external service.
\<close>

definition main_init ::
  "string \<Rightarrow> string \<Rightarrow> int \<Rightarrow> duration \<Rightarrow> duration
     \<Rightarrow> (request list \<Rightarrow> request \<Rightarrow> string option) \<Rightarrow> world" where
  "main_init ollamaURL ollamaModel rateLimit rateLimitWindow ttl rsp =
     \<lparr>clients = (\<lambda>_. empty_client), rooms = (\<lambda>_. empty_room), nclients = 0, nrooms = 0,
      hub = NewHub, timers = Map.empty, ntimers = 0, sessions = Map.empty, nconns = 0,
      limiter = NewRateLimiter rateLimit rateLimitWindow,
      translator = NewTranslator ollamaURL ollamaModel ttl,
      ollama = \<lparr>respond = rsp, requests = []\<rparr>, wire = []\<rparr>"

text \<open>
  The states the server reaches: from the initial state, by any request to a REST handler,
  any websocket connection attempt, any frame arriving on an open connection and any due
  timer firing, each taken as one step.
\<close>

inductive reachable :: "world \<Rightarrow> bool" where
  r_init: "reachable (main_init ollamaURL ollamaModel rateLimit rateLimitWindow ttl rsp)"
| r_set_profile: "reachable w \<Longrightarrow> reachable (snd (handleSetProfile w method body token))"
| r_start_chat: "reachable w \<Longrightarrow> reachable (snd (handleStartChat w method body token roomToken))"
| r_join_room: "reachable w \<Longrightarrow> reachable (snd (handleJoinRoom w method authorization rbody))"
| r_end_chat: "reachable w \<Longrightarrow> reachable (snd (handleEndChat w method authorization rbody now))"
| r_connect: "reachable w \<Longrightarrow> reachable (snd (ws_connect w token roomID accepted now))"
| r_receive: "reachable w \<Longrightarrow> reachable (ws_receive w c fr now)"
| r_fire: "reachable w \<Longrightarrow> reachable (timer_fire w tid now)"

section \<open>Invariants of the registry\<close>

text \<open>
  The invariant of claim C7: every room of the registry whose customer or agent is set has
  that participant's token as a key of the registry's participant map.
\<close>

definition registered :: "world \<Rightarrow> client_ptr option \<Rightarrow> bool" where
  "registered w p = (case p of None \<Rightarrow> True | Some c \<Rightarrow> GetClient w (Token (clients w c)) \<noteq> None)"

definition registry_inv :: "world \<Rightarrow> bool" where
  "registry_inv w =
     list_all (\<lambda>(rid, room). registered w (Customer (rooms w room)) \<and> registered w (Agent (rooms w room)))
       (Rooms (hub w))"

text \<open>A token is in use when a room of the registry has a customer or an agent with that token.\<close>

definition has_token :: "world \<Rightarrow> client_ptr option \<Rightarrow> string \<Rightarrow> bool" where
  "has_token w p token = (case p of None \<Rightarrow> False | Some c \<Rightarrow> Token (clients w c) = token)"

definition token_in_use :: "world \<Rightarrow> string \<Rightarrow> bool" where
  "token_in_use w token =
     list_ex (\<lambda>(rid, room). has_token w (Customer (rooms w room)) token \<or> has_token w (Agent (rooms w room)) token)
       (Rooms (hub w))"


text \<open>
  Well-formedness of a reachable state, used to prove the two invariants. Every key of the
  participant map is the token of the client it maps to; registered clients and rooms are
  allocated; and every allocated room has no agent while it is waiting or closing, and a
  customer and an agent that are allocated and registered. A step is \<open>benign\<close> when it
  allocates nothing, leaves the participant map and every token alone, removes rooms from
  the registry at most, and changes a room only by a \<open>room_move\<close>.
\<close>

definition part_ok :: "world \<Rightarrow> client_ptr option \<Rightarrow> bool" where
  "part_ok w p =
     (case p of None \<Rightarrow> True | Some c \<Rightarrow> c < nclients w \<and> GetClient w (Token (clients w c)) \<noteq> None)"

definition vacant_ok :: "Room \<Rightarrow> bool" where
  "vacant_ok R = (Status R = RoomWaiting \<or> Status R = RoomClosing \<longrightarrow> Agent R = None)"

definition wf_world :: "world \<Rightarrow> bool" where
  "wf_world w =
     ((\<forall>(k, p) \<in> set (Clients (hub w)). p < nclients w \<and> Token (clients w p) = k) \<and>
      (\<forall>(k, r) \<in> set (Rooms (hub w)). r < nrooms w) \<and>
      (\<forall>r < nrooms w. vacant_ok (rooms w r) \<and> part_ok w (Customer (rooms w r))
          \<and> part_ok w (Agent (rooms w r))))"

definition room_move :: "Room \<Rightarrow> Room \<Rightarrow> bool" where
  "room_move R R' =
     (Customer R' = Customer R \<and> (Agent R' = Agent R \<or> Agent R' = None)
      \<and> (vacant_ok R \<longrightarrow> vacant_ok R'))"

definition benign :: "world \<Rightarrow> world \<Rightarrow> bool" where
  "benign w w' =
     (nclients w' = nclients w \<and> nrooms w' = nrooms w \<and> Clients (hub w') = Clients (hub w) \<and>
      set (Rooms (hub w')) \<subseteq> set (Rooms (hub w)) \<and>
      (\<forall>p. Token (clients w' p) = Token (clients w p)) \<and>
      (\<forall>r. room_move (rooms w r) (rooms w' r)))"

section \<open>Example states\<close>

text \<open>
  A run of the server with a rate limit of 2 messages per minute and a cache TTL of ten
  minutes. The external service detects \<open>Ola\<close> as Portuguese, translates \<open>Ola\<close> to
  \<open>Hello\<close> and \<open>Hi\<close> to \<open>Oi\<close>, and fails on everything else.
\<close>

definition demo_respond :: "request list \<Rightarrow> request \<Rightarrow> string option" where
  "demo_respond hist req =
     (case req of (u, m, prompt) \<Rightarrow>
        if prompt = detect_prompt ''Ola'' then Some '' pt ''
        else if prompt = translate_prompt ''Ola'' ''pt'' ''en'' then Some ''Hello''
        else if prompt = translate_prompt ''Hi'' ''en'' ''pt'' then Some ''Oi''
        else None)"

definition agent_token :: string where
  "agent_token = ''5f2b8c1d9e3a4f607182a3b4c5d6e7f8''"

definition customer_token :: string where
  "customer_token = ''0a1b2c3d4e5f60718293a4b5c6d7e8f9''"

definition room_token :: string where
  "room_token = ''c0ffee00c0ffee00c0ffee00c0ffee00''"

definition room_id :: string where
  "room_id = ''room_'' @ room_token"

definition bearer :: "string \<Rightarrow> string" where
  "bearer token = ''Bearer '' @ token"

text \<open>The server starts; agent Bob sets his profile; customer Alice starts a chat; Bob joins.\<close>

definition demo0 :: world where
  "demo0 = main_init ''http://localhost:11434'' ''llama3.2'' 2 Minute (10 * Minute) demo_respond"

definition demo1 :: world where
  "demo1 = snd (handleSetProfile demo0 ''POST'' (Some (''Bob'', ''en'')) agent_token)"

definition demo2 :: world where
  "demo2 = snd (handleStartChat demo1 ''POST'' (Some (''Alice'', ''Ola'')) customer_token room_token)"

definition demo3 :: world where
  "demo3 = snd (handleJoinRoom demo2 ''POST'' (bearer agent_token) (Some room_id))"

text \<open>Bob opens his websocket (connection 0), then Alice hers (connection 1), at instant 0.\<close>

definition demo4 :: world where
  "demo4 = snd (ws_connect demo3 agent_token room_id True 0)"

definition demo5 :: world where
  "demo5 = snd (ws_connect demo4 customer_token room_id True 0)"

text \<open>From \<open>demo5\<close>: Alice writes \<open>Ola\<close> after one and after two seconds.\<close>

definition demo_two_sent :: world where
  "demo_two_sent = ws_receive (ws_receive demo5 1 (Payload ''Ola'') Second) 1 (Payload ''Ola'') (2 * Second)"

text \<open>From \<open>demo5\<close>: Bob ends the chat after 10 seconds.\<close>

definition demo_ended :: world where
  "demo_ended = snd (handleEndChat demo5 ''POST'' (bearer agent_token) (Some room_id) (10 * Second))"

text \<open>From \<open>demo_ended\<close>, the chat ended once: Alice writes \<open>Ola\<close> after 11 seconds.\<close>

definition demo_reopened_once :: world where
  "demo_reopened_once = ws_receive demo_ended 1 (Payload ''Ola'') (11 * Second)"

text \<open>
  From \<open>demo_ended\<close>: Bob ends the chat once more after 20 seconds; Alice writes \<open>Ola\<close>
  after 21 seconds; the timer of the first end request fires when it is due.
\<close>

definition demo_ended_twice :: world where
  "demo_ended_twice = snd (handleEndChat demo_ended ''POST'' (bearer agent_token) (Some room_id) (20 * Second))"

definition demo_reopened :: world where
  "demo_reopened = ws_receive demo_ended_twice 1 (Payload ''Ola'') (21 * Second)"

definition demo_fired :: world where
  "demo_fired = timer_fire demo_reopened 0 (10 * Second + 5 * Minute)"

text \<open>A service that answers every request with the prompt it was sent.\<close>

definition echo_service :: Ollama where
  "echo_service = \<lparr>respond = (\<lambda>hist (u, m, prompt). Some prompt), requests = []\<rparr>"

text \<open>
  A fresh translator with a TTL of ten minutes after one call, at instant 0, that translates
  the text \<open>d\<close> from language \<open>a:b\<close> to language \<open>c\<close>.
\<close>

definition stored_once :: "Translator \<times> Ollama" where
  "stored_once =
     snd (Translate (NewTranslator ''http://localhost:11434'' ''llama3.2'' (10 * Minute))
            echo_service ''d'' ''a:b'' ''c'' 0 0)"

section \<open>Every reachable state is well-formed\<close>

lemma room_move_refl: "room_move R R"
  by (simp add: room_move_def)

lemma room_move_trans: "room_move R R' \<Longrightarrow> room_move R' R'' \<Longrightarrow> room_move R R''"
  by (auto simp: room_move_def)

lemma benign_refl: "benign w w"
  by (simp add: benign_def room_move_refl)

lemma benign_trans: "benign w w' \<Longrightarrow> benign w' w'' \<Longrightarrow> benign w w''"
  unfolding benign_def
  by (intro conjI allI) (auto intro: room_move_trans)

lemma part_ok_benign: "benign w w' \<Longrightarrow> part_ok w p \<Longrightarrow> part_ok w' p"
  by (auto simp: benign_def part_ok_def GetClient_def split: option.splits)

lemma wf_benign:
  assumes "wf_world w" and "benign w w'"
  shows "wf_world w'"
proof -
  have c: "\<forall>(k, p) \<in> set (Clients (hub w')). p < nclients w' \<and> Token (clients w' p) = k"
    using assms by (auto simp: wf_world_def benign_def)
  have r: "\<forall>(k, r) \<in> set (Rooms (hub w')). r < nrooms w'"
    using assms by (auto simp: wf_world_def benign_def)
  have "vacant_ok (rooms w' r) \<and> part_ok w' (Customer (rooms w' r)) \<and> part_ok w' (Agent (rooms w' r))"
    if "r < nrooms w'" for r
  proof -
    from that assms have lt: "r < nrooms w" by (simp add: benign_def)
    with assms(1) have old: "vacant_ok (rooms w r)" "part_ok w (Customer (rooms w r))"
        "part_ok w (Agent (rooms w r))"
      by (simp_all add: wf_world_def)
    from assms(2) have mv: "room_move (rooms w r) (rooms w' r)" by (simp add: benign_def)
    from mv old(1) have v: "vacant_ok (rooms w' r)" by (simp add: room_move_def)
    from mv old(2) assms(2) have cu: "part_ok w' (Customer (rooms w' r))"
      by (auto simp: room_move_def intro: part_ok_benign)
    from mv have "Agent (rooms w' r) = Agent (rooms w r) \<or> Agent (rooms w' r) = None"
      by (simp add: room_move_def)
    then have ag: "part_ok w' (Agent (rooms w' r))"
    proof
      assume "Agent (rooms w' r) = Agent (rooms w r)"
      with old(3) assms(2) show ?thesis by (auto intro: part_ok_benign)
    next
      assume "Agent (rooms w' r) = None"
      then show ?thesis by (simp add: part_ok_def)
    qed
    from v cu ag show ?thesis by simp
  qed
  with c r show ?thesis by (simp add: wf_world_def)
qed

lemma benign_conn_write: "benign w (conn_write w c out)"
  by (simp add: benign_def conn_write_def room_move_refl)

lemma benign_client_set: "(\<And>cl. Token (f cl) = Token cl) \<Longrightarrow> benign w (client_set w p f)"
  by (simp add: benign_def client_set_def room_move_refl)

lemma benign_room_set: "room_move (rooms w r) (f (rooms w r)) \<Longrightarrow> benign w (room_set w r f)"
  by (simp add: benign_def room_set_def room_move_refl)

lemma benign_timer_stop: "benign w (timer_stop w tid)"
  by (simp add: benign_def timer_stop_def room_move_refl)

lemma benign_AfterFunc: "benign w (snd (AfterFunc w now d room))"
  by (simp add: benign_def AfterFunc_def room_move_refl)

lemma benign_RemoveRoom: "benign w (RemoveRoom w rid)"
  by (auto simp: benign_def RemoveRoom_def room_move_refl AList.delete_eq)

lemma benign_fields:
  "benign w (w\<lparr>limiter := l\<rparr>)" "benign w (w\<lparr>translator := t\<rparr>)" "benign w (w\<lparr>ollama := ol\<rparr>)"
  "benign w (w\<lparr>sessions := ss\<rparr>)" "benign w (w\<lparr>nconns := n\<rparr>)" "benign w (w\<lparr>timers := ts\<rparr>)"
  "benign w (w\<lparr>translator := t, ollama := ol\<rparr>)"
  by (simp_all add: benign_def room_move_refl)

lemma benign_prepareMessage: "benign w (snd (prepareMessage w room sender recipient content now))"
  by (auto simp: prepareMessage_def Let_def benign_def client_set_def room_move_refl
      split: option.splits prod.splits sum.splits)


lemma benign_replay: "benign w (replay w c room customer client ms now)"
proof (induction ms arbitrary: w)
  case Nil
  show ?case by (simp add: benign_refl)
next
  case (Cons m ms)
  obtain chatMsg w1 where p: "prepareMessage w room customer client (Content m) now = (chatMsg, w1)"
    by (cases "prepareMessage w room customer client (Content m) now")
  have "benign w w1"
    using benign_prepareMessage [of w room customer client "Content m" now] p by simp
  then have "benign w (conn_write w1 c (OutMessage chatMsg))"
    by (rule benign_trans) (rule benign_conn_write)
  then show ?case
    using Cons.IH [of "conn_write w1 c (OutMessage chatMsg)"] p
    by (auto intro: benign_trans)
qed

lemma benign_reopen:
  assumes "reopen_guard w room client"
  shows "benign w (reopen w room)"
proof -
  from assms have st: "Status (rooms w room) = RoomClosing"
    by (simp add: reopen_guard_def)
  show ?thesis
  proof (cases "CloseTimer (rooms w room)")
    case None
    with st show ?thesis
      by (auto simp: reopen_def intro!: benign_room_set simp: room_move_def vacant_ok_def)
  next
    case (Some tid)
    let ?w1 = "room_set (timer_stop w tid) room (\<lambda>r. r\<lparr>CloseTimer := None\<rparr>)"
    have b1: "benign w ?w1"
      by (rule benign_trans [OF benign_timer_stop])
         (rule benign_room_set, simp add: room_move_def vacant_ok_def)
    have st1: "Status (rooms ?w1 room) = RoomClosing"
      using st by (simp add: room_set_def timer_stop_def)
    have "benign ?w1 (room_set ?w1 room (\<lambda>r. r\<lparr>Status := RoomWaiting\<rparr>))"
      using st1 by (intro benign_room_set) (simp add: room_move_def vacant_ok_def)
    with b1 show ?thesis
      using Some by (simp add: reopen_def benign_trans)
  qed
qed

lemma benign_ws_iteration: "benign w (snd (ws_iteration w c s fr now))"
proof (cases fr)
  case ReadError
  then show ?thesis by (simp add: ws_iteration_def benign_refl)
next
  case BadJson
  then show ?thesis by (simp add: ws_iteration_def benign_refl)
next
  case (Payload content)
  obtain ok lim where a: "Allow (limiter w) (Token (clients w (s_client s))) now now = (ok, lim)"
    by (cases "Allow (limiter w) (Token (clients w (s_client s))) now now")
  let ?w1 = "w\<lparr>limiter := lim\<rparr>"
  let ?w2 = "room_set ?w1 (s_room s) (\<lambda>r. r\<lparr>Messages := Messages r @
      [\<lparr>Type = ''message'', RoomID = ID r, From = Name (clients w (s_client s)),
        Content = content, TranslatedContent = []\<rparr>]\<rparr>)"
  let ?w3 = "if reopen_guard ?w2 (s_room s) (s_client s) then reopen ?w2 (s_room s) else ?w2"
  have b1: "benign w ?w1" by (rule benign_fields)
  have b2: "benign w ?w2"
    by (rule benign_trans [OF b1]) (rule benign_room_set, simp add: room_move_def vacant_ok_def)
  have b3: "benign w ?w3"
    using b2 benign_reopen [of ?w2 "s_room s" "s_client s"] by (auto intro: benign_trans)
  show ?thesis
  proof (cases ok)
    case False
    with a Payload benign_trans [OF b1 benign_conn_write] show ?thesis
      by (simp add: ws_iteration_def Let_def)
  next
    case True
    show ?thesis
    proof (cases "Status (rooms ?w2 (s_room s)) = RoomClosed")
      case c: True
      with a Payload True benign_trans [OF b2 benign_conn_write] show ?thesis
        by (simp add: ws_iteration_def Let_def)
    next
      case nc: False
      show ?thesis
      proof (cases "s_recipient s")
        case None
        with a Payload True nc b3 show ?thesis
          by (simp add: ws_iteration_def Let_def)
      next
        case (Some rcp)
        show ?thesis
        proof (cases "Connection (clients ?w3 rcp)")
          case None
          with a Payload True nc b3 Some show ?thesis
            by (simp add: ws_iteration_def Let_def)
        next
          case (Some rc)
          obtain chatMsg w4 where p: "prepareMessage ?w3 (s_room s) (s_client s) rcp content now = (chatMsg, w4)"
            by (cases "prepareMessage ?w3 (s_room s) (s_client s) rcp content now")
          have "benign ?w3 w4"
            using benign_prepareMessage [of ?w3 "s_room s" "s_client s" rcp content now] p by simp
          with b3 have "benign w w4" by (rule benign_trans)
          then have "benign w (conn_write w4 rc (OutMessage chatMsg))"
            by (rule benign_trans) (rule benign_conn_write)
          with a Payload True nc \<open>s_recipient s = Some rcp\<close> Some p show ?thesis
            by (simp add: ws_iteration_def Let_def)
        qed
      qed
    qed
  qed
qed

lemma benign_ws_cleanup: "benign w (ws_cleanup w c s)"
  unfolding ws_cleanup_def
  by (rule benign_trans [OF benign_client_set benign_fields(4)]) simp

lemma benign_ws_receive: "benign w (ws_receive w c fr now)"
proof (cases "sessions w c")
  case None
  then show ?thesis by (simp add: ws_receive_def benign_refl)
next
  case (Some s)
  obtain ctl w' where i: "ws_iteration w c s fr now = (ctl, w')"
    by (cases "ws_iteration w c s fr now")
  have b: "benign w w'"
    using benign_ws_iteration [of w c s fr now] i by simp
  show ?thesis
  proof (cases ctl)
    case Continue
    with Some i b show ?thesis by (simp add: ws_receive_def)
  next
    case Break
    with Some i show ?thesis
      by (simp add: ws_receive_def benign_trans [OF b benign_ws_cleanup])
  qed
qed

lemma benign_timer_fire: "benign w (timer_fire w tid now)"
proof (cases "timers w tid")
  case None
  then show ?thesis by (simp add: timer_fire_def benign_refl)
next
  case (Some t)
  let ?w1 = "w\<lparr>timers := (timers w)(tid := None)\<rparr>"
  let ?w2 = "room_set ?w1 (timer_room t) (\<lambda>r. r\<lparr>Status := RoomClosed\<rparr>)"
  let ?w3 = "RemoveRoom ?w2 (ID (rooms ?w2 (timer_room t)))"
  have "benign w ?w1" by (rule benign_fields)
  moreover have "benign ?w1 ?w2"
    by (rule benign_room_set) (simp add: room_move_def vacant_ok_def)
  moreover have "benign ?w2 ?w3" by (rule benign_RemoveRoom)
  ultimately have b3: "benign w ?w3" by (blast intro: benign_trans)
  then have "benign w (conn_write ?w3 cc out)" for cc out
    by (rule benign_trans) (rule benign_conn_write)
  with b3 Some show ?thesis
    by (simp add: timer_fire_def Let_def benign_refl split: option.split)
qed


lemma set_delete_subset: "set (AList.delete k al) \<subseteq> set al"
  by (auto simp: AList.delete_eq)

lemma benign_handleEndChat: "benign w (snd (handleEndChat w method authorization body now))"
proof -
  have d: "(k, r) \<in> set (AList.delete rid al) \<Longrightarrow> (k, r) \<in> set al" for k r rid and al :: "(string \<times> nat) list"
    using set_delete_subset by fastforce
  show ?thesis
    unfolding handleEndChat_def Let_def benign_def
    by (auto simp: room_set_def conn_write_def RemoveRoom_def AfterFunc_def room_move_def
        vacant_ok_def dest: d split: option.split)
qed

lemma benign_ws_connect: "benign w (snd (ws_connect w token roomID accepted now))"
proof -
  have b1: "benign w (client_set (w\<lparr>nconns := n\<rparr>) client (\<lambda>cl. cl\<lparr>Connection := Some c\<rparr>))"
    for n client c
    by (rule benign_trans [OF benign_fields(5) benign_client_set]) simp
  have b2: "benign w (client_set (client_set (w\<lparr>nconns := n\<rparr>) client (\<lambda>cl. cl\<lparr>Connection := Some c\<rparr>))
      client (\<lambda>cl. cl\<lparr>Connection := None\<rparr>))" for n client c
    by (rule benign_trans [OF b1 benign_client_set]) simp
  have b3: "benign w ((replay (client_set (w\<lparr>nconns := n\<rparr>) client (\<lambda>cl. cl\<lparr>Connection := Some c\<rparr>))
      c' room cu client' ms now)\<lparr>sessions := ss\<rparr>)" for n client c c' room cu client' ms ss
    by (rule benign_trans [OF benign_trans [OF b1 benign_replay] benign_fields(4)])
  have b4: "benign w ((client_set (w\<lparr>nconns := n\<rparr>) client (\<lambda>cl. cl\<lparr>Connection := Some c\<rparr>))
      \<lparr>sessions := ss\<rparr>)" for n client c ss
    by (rule benign_trans [OF b1 benign_fields(4)])
  show ?thesis
    unfolding ws_connect_def Let_def
    by (simp add: benign_refl b2 b3 b4 split: option.split)
qed

lemma set_update_subset: "set (AList.update k v al) \<subseteq> insert (k, v) (set al)"
  by (induction al) auto

lemma wf_register:
  assumes "wf_world w"
  shows "wf_world (AddClient (snd (NewClient w token name language)) (nclients w))"
    and "part_ok (AddClient (snd (NewClient w token name language)) (nclients w)) (Some (nclients w))"
proof -
  let ?w2 = "AddClient (snd (NewClient w token name language)) (nclients w)"
  have cl: "clients ?w2 p = clients w p" if "p < nclients w" for p
    using that by (simp add: AddClient_def NewClient_def)
  have tok: "Token (clients ?w2 (nclients w)) = token"
    by (simp add: AddClient_def NewClient_def)
  have C: "Clients (hub ?w2) = AList.update token (nclients w) (Clients (hub w))"
    by (simp add: AddClient_def NewClient_def)
  have R: "Rooms (hub ?w2) = Rooms (hub w)" "rooms ?w2 = rooms w" "nrooms ?w2 = nrooms w"
    "nclients ?w2 = Suc (nclients w)"
    by (simp_all add: AddClient_def NewClient_def)
  have i1: "\<forall>(k, p) \<in> set (Clients (hub ?w2)). p < nclients ?w2 \<and> Token (clients ?w2 p) = k"
  proof (clarify)
    fix k p assume "(k, p) \<in> set (Clients (hub ?w2))"
    with C set_update_subset [of token "nclients w" "Clients (hub w)"]
    have "(k, p) = (token, nclients w) \<or> (k, p) \<in> set (Clients (hub w))" by auto
    then show "p < nclients ?w2 \<and> Token (clients ?w2 p) = k"
    proof
      assume "(k, p) = (token, nclients w)"
      with tok R show ?thesis by simp
    next
      assume "(k, p) \<in> set (Clients (hub w))"
      with assms have "p < nclients w \<and> Token (clients w p) = k"
        by (auto simp: wf_world_def)
      with cl R show ?thesis by simp
    qed
  qed
  have po: "part_ok ?w2 p" if "part_ok w p" for p
  proof (cases p)
    case None
    then show ?thesis by (simp add: part_ok_def)
  next
    case (Some c)
    with that have "c < nclients w" and "map_of (Clients (hub w)) (Token (clients w c)) \<noteq> None"
      by (simp_all add: part_ok_def GetClient_def)
    with Some cl [of c] C R show ?thesis
      by (simp add: part_ok_def GetClient_def update_conv')
  qed
  have i3: "\<forall>r < nrooms ?w2. vacant_ok (rooms ?w2 r) \<and> part_ok ?w2 (Customer (rooms ?w2 r))
          \<and> part_ok ?w2 (Agent (rooms ?w2 r))"
    using assms R po by (simp add: wf_world_def)
  from i1 i3 assms R show "wf_world ?w2"
    by (simp add: wf_world_def)
  show "part_ok ?w2 (Some (nclients w))"
    using tok C R by (simp add: part_ok_def GetClient_def update_conv')
qed

lemma wf_CreateRoom:
  assumes "wf_world w" and "part_ok w customer"
  shows "wf_world (snd (CreateRoom w token customer))"
proof -
  let ?w' = "snd (CreateRoom w token customer)"
  have f: "clients ?w' = clients w" "nclients ?w' = nclients w" "Clients (hub ?w') = Clients (hub w)"
    "nrooms ?w' = Suc (nrooms w)"
    "Rooms (hub ?w') = AList.update (''room_'' @ token) (nrooms w) (Rooms (hub w))"
    by (simp_all add: CreateRoom_def NewRoom_def Let_def)
  have old: "rooms ?w' r = rooms w r" if "r < nrooms w" for r
    using that by (simp add: CreateRoom_def NewRoom_def Let_def)
  have new: "Customer (rooms ?w' (nrooms w)) = customer" "Agent (rooms ?w' (nrooms w)) = None"
    "Status (rooms ?w' (nrooms w)) = RoomWaiting"
    by (simp_all add: CreateRoom_def NewRoom_def Let_def)
  have po: "part_ok ?w' p = part_ok w p" for p
    using f by (cases p) (simp_all add: part_ok_def GetClient_def)
  have i2: "\<forall>(k, r) \<in> set (Rooms (hub ?w')). r < nrooms ?w'"
  proof (clarify)
    fix k r assume "(k, r) \<in> set (Rooms (hub ?w'))"
    with f set_update_subset [of "''room_'' @ token" "nrooms w" "Rooms (hub w)"]
    have "r = nrooms w \<or> (k, r) \<in> set (Rooms (hub w))" by auto
    with assms(1) f show "r < nrooms ?w'" by (auto simp: wf_world_def)
  qed
  have i3: "vacant_ok (rooms ?w' r) \<and> part_ok ?w' (Customer (rooms ?w' r))
          \<and> part_ok ?w' (Agent (rooms ?w' r))" if "r < nrooms ?w'" for r
  proof (cases "r = nrooms w")
    case True
    with new assms(2) po show ?thesis by (simp add: vacant_ok_def part_ok_def)
  next
    case False
    with that f have "r < nrooms w" by simp
    with assms(1) old po show ?thesis by (simp add: wf_world_def)
  qed
  from assms(1) f i2 i3 show ?thesis by (simp add: wf_world_def)
qed

lemma wf_JoinRoom:
  assumes "wf_world w" and "part_ok w agent" and "JoinRoom w roomID agent = Inr (room, w')"
  shows "wf_world w'"
proof -
  from assms(3) have w': "w' = w\<lparr>rooms := (rooms w)(room := (rooms w room)\<lparr>Agent := agent, Status := RoomActive\<rparr>)\<rparr>"
    by (auto simp: JoinRoom_def split: option.splits if_splits)
  have po: "part_ok w' p = part_ok w p" for p
    by (cases p) (simp_all add: w' part_ok_def GetClient_def)
  show ?thesis
    using assms(1,2) unfolding wf_world_def po
    by (auto simp: w' vacant_ok_def)
qed

lemma wf_GetClient:
  assumes "wf_world w" and "GetClient w token = Some c"
  shows "part_ok w (Some c)"
proof -
  from assms(2) have "(token, c) \<in> set (Clients (hub w))"
    by (simp add: GetClient_def map_of_SomeD)
  with assms(1) have "c < nclients w \<and> Token (clients w c) = token"
    by (auto simp: wf_world_def)
  with assms(2) show ?thesis by (simp add: part_ok_def)
qed

lemma wf_handleSetProfile: "wf_world w \<Longrightarrow> wf_world (snd (handleSetProfile w method body token))"
  using wf_register(1) [of w]
  by (auto simp: handleSetProfile_def Let_def NewClient_def split: option.split prod.split)

lemma wf_handleStartChat:
  assumes "wf_world w"
  shows "wf_world (snd (handleStartChat w method body token roomToken))"
proof (cases "method = ''POST'' \<and> (\<exists>name content. body = Some (name, content) \<and> name \<noteq> [] \<and> content \<noteq> [])")
  case False
  with assms show ?thesis
    by (auto simp: handleStartChat_def split: option.split prod.split)
next
  case True
  then obtain name content where b: "method = ''POST''" "body = Some (name, content)" "name \<noteq> []" "content \<noteq> []"
    by blast
  let ?w2 = "AddClient (snd (NewClient w token name [])) (nclients w)"
  obtain room w3 where c: "CreateRoom ?w2 roomToken (Some (nclients w)) = (room, w3)"
    by (cases "CreateRoom ?w2 roomToken (Some (nclients w))")
  have "wf_world w3"
    using wf_CreateRoom [OF wf_register [OF assms]] c by (metis snd_conv)
  then have "wf_world (room_set w3 room f)" if "\<And>R. room_move R (f R)" for f
    using that by (auto intro: wf_benign benign_room_set)
  then show ?thesis
    using b c
    by (simp add: handleStartChat_def Let_def NewClient_def room_move_def vacant_ok_def)
qed

lemma wf_handleJoinRoom:
  assumes "wf_world w"
  shows "wf_world (snd (handleJoinRoom w method authorization body))"
proof -
  have "wf_world w1 \<and> wf_world (conn_write w1 cc out)"
    if "GetClient w token = Some agent" "JoinRoom w roomID (Some agent) = Inr (room, w1)"
    for token agent roomID room w1 cc out
  proof -
    from wf_JoinRoom [OF assms wf_GetClient [OF assms that(1)] that(2)] have "wf_world w1" .
    then show ?thesis by (auto intro: wf_benign benign_conn_write)
  qed
  with assms show ?thesis
    unfolding handleJoinRoom_def Let_def
    by (auto split: option.split sum.split prod.split)
qed

lemma wf_main_init: "wf_world (main_init u m rl rw ttl rsp)"
  by (simp add: wf_world_def main_init_def NewHub_def)

lemma reachable_wf: "reachable w \<Longrightarrow> wf_world w"
proof (induction rule: reachable.induct)
  case r_init
  show ?case by (rule wf_main_init)
next
  case r_set_profile
  then show ?case by (simp add: wf_handleSetProfile)
next
  case r_start_chat
  then show ?case by (simp add: wf_handleStartChat)
next
  case r_join_room
  then show ?case by (simp add: wf_handleJoinRoom)
next
  case r_end_chat
  then show ?case by (blast intro: wf_benign benign_handleEndChat)
next
  case r_connect
  then show ?case by (blast intro: wf_benign benign_ws_connect)
next
  case r_receive
  then show ?case by (blast intro: wf_benign benign_ws_receive)
next
  case r_fire
  then show ?case by (blast intro: wf_benign benign_timer_fire)
qed

section \<open>The rate limiter\<close>

lemma collect_recent_filter:
  "collect_recent cutoff recent ts = recent @ filter (\<lambda>t. cutoff < t) ts"
  by (induction ts arbitrary: recent) simp_all

lemma Allow_filter:
  "Allow r token now1 now2 =
     (let surviving = filter (\<lambda>t. now1 - window r < t) (limits_at r token)
      in if maxMessages r \<le> int (length surviving)
         then (False, r\<lparr>limits := (limits r)(token \<mapsto> surviving)\<rparr>)
         else (True, r\<lparr>limits := (limits r)(token \<mapsto> surviving @ [now2])\<rparr>))"
  by (simp add: Allow_def collect_recent_filter Let_def)

text \<open>
  Claim C3. A call of Allow for an identity, on any limiter state, keeps of that identity's
  recorded timestamps exactly those after the cutoff \<open>now - window\<close> (every timestamp older
  than the cutoff is dropped, and so is one equal to it). If the number of survivors is at
  least the maximum it stores the survivors and returns false, recording nothing new;
  otherwise it stores the survivors followed by the current time and returns true. No other
  identity's timestamps change. With a maximum of 3 and a window of one minute, on a fresh
  limiter, three calls and a fourth that starts less than a minute after the first was
  recorded return true, true, true, false, and a fifth call that starts a minute or more
  after the first was recorded returns true.
\<close>

theorem Allow_sliding_window:
  "Allow r token now1 now2 =
     (let surviving = filter (\<lambda>t. now1 - window r < t) (limits_at r token)
      in if maxMessages r \<le> int (length surviving)
         then (False, r\<lparr>limits := (limits r)(token \<mapsto> surviving)\<rparr>)
         else (True, r\<lparr>limits := (limits r)(token \<mapsto> surviving @ [now2])\<rparr>))
   \<and> (a1 \<le> b1 \<and> b1 \<le> a2 \<and> a2 \<le> b2 \<and> b2 \<le> a3 \<and> a3 \<le> b3 \<and> b3 \<le> a4 \<and> a4 \<le> b4
        \<and> a4 < b1 + Minute \<and> b1 + Minute \<le> a5 \<longrightarrow>
       (let r0 = NewRateLimiter 3 Minute;
            (ok1, r1) = Allow r0 token a1 b1;
            (ok2, r2) = Allow r1 token a2 b2;
            (ok3, r3) = Allow r2 token a3 b3;
            (ok4, r4) = Allow r3 token a4 b4;
            (ok5, r5) = Allow r4 token a5 b5
        in ok1 \<and> ok2 \<and> ok3 \<and> \<not> ok4 \<and> ok5 \<and> limits_at r4 token = [b1, b2, b3]))"
proof (rule conjI)
  show "Allow r token now1 now2 =
     (let surviving = filter (\<lambda>t. now1 - window r < t) (limits_at r token)
      in if maxMessages r \<le> int (length surviving)
         then (False, r\<lparr>limits := (limits r)(token \<mapsto> surviving)\<rparr>)
         else (True, r\<lparr>limits := (limits r)(token \<mapsto> surviving @ [now2])\<rparr>))"
    by (rule Allow_filter)
next
  show "a1 \<le> b1 \<and> b1 \<le> a2 \<and> a2 \<le> b2 \<and> b2 \<le> a3 \<and> a3 \<le> b3 \<and> b3 \<le> a4 \<and> a4 \<le> b4
        \<and> a4 < b1 + Minute \<and> b1 + Minute \<le> a5 \<longrightarrow>
       (let r0 = NewRateLimiter 3 Minute;
            (ok1, r1) = Allow r0 token a1 b1;
            (ok2, r2) = Allow r1 token a2 b2;
            (ok3, r3) = Allow r2 token a3 b3;
            (ok4, r4) = Allow r3 token a4 b4;
            (ok5, r5) = Allow r4 token a5 b5
        in ok1 \<and> ok2 \<and> ok3 \<and> \<not> ok4 \<and> ok5 \<and> limits_at r4 token = [b1, b2, b3])"
    by (simp add: Allow_filter NewRateLimiter_def limits_at_def Let_def)
qed

theorem Allow_sliding_window_witness:
  "(0::int) \<le> 1 \<and> (1::int) \<le> 2 \<and> (2::int) \<le> 3 \<and> (3::int) \<le> 4 \<and> (4::int) \<le> 5 \<and> (5::int) \<le> 6
   \<and> (6::int) \<le> 7 \<and> 6 < 1 + Minute \<and> 1 + Minute \<le> 1 + Minute
   \<and> (let r0 = NewRateLimiter 3 Minute;
          (ok1, r1) = Allow r0 ''token1'' 0 1;
          (ok2, r2) = Allow r1 ''token1'' 2 3;
          (ok3, r3) = Allow r2 ''token1'' 4 5;
          (ok4, r4) = Allow r3 ''token1'' 6 7;
          (ok5, r5) = Allow r4 ''token1'' (1 + Minute) (2 + Minute)
      in ok1 \<and> ok2 \<and> ok3 \<and> \<not> ok4 \<and> ok5 \<and> limits_at r4 ''token1'' = [1, 3, 5])"
proof -
  have h: "(0::int) \<le> 1 \<and> (1::int) \<le> 2 \<and> (2::int) \<le> 3 \<and> (3::int) \<le> 4 \<and> (4::int) \<le> 5
      \<and> (5::int) \<le> 6 \<and> (6::int) \<le> 7 \<and> 6 < 1 + Minute \<and> 1 + Minute \<le> 1 + Minute"
    by (simp add: Minute_def Second_def)
  from Allow_sliding_window [where ?a1.0 = 0 and ?b1.0 = 1 and ?a2.0 = 2 and ?b2.0 = 3
      and ?a3.0 = 4 and ?b3.0 = 5 and ?a4.0 = 6 and ?b4.0 = 7 and ?a5.0 = "1 + Minute"
      and ?b5.0 = "2 + Minute" and token = "''token1''"]
  have "(0::int) \<le> 1 \<and> (1::int) \<le> 2 \<and> (2::int) \<le> 3 \<and> (3::int) \<le> 4 \<and> (4::int) \<le> 5
      \<and> (5::int) \<le> 6 \<and> (6::int) \<le> 7 \<and> 6 < 1 + Minute \<and> 1 + Minute \<le> 1 + Minute \<longrightarrow>
     (let r0 = NewRateLimiter 3 Minute;
          (ok1, r1) = Allow r0 ''token1'' 0 1;
          (ok2, r2) = Allow r1 ''token1'' 2 3;
          (ok3, r3) = Allow r2 ''token1'' 4 5;
          (ok4, r4) = Allow r3 ''token1'' 6 7;
          (ok5, r5) = Allow r4 ''token1'' (1 + Minute) (2 + Minute)
      in ok1 \<and> ok2 \<and> ok3 \<and> \<not> ok4 \<and> ok5 \<and> limits_at r4 ''token1'' = [1, 3, 5])"
    by (rule conjunct2)
  with h show ?thesis by blast
qed

section \<open>The translation cache\<close>

lemma cache_key_split:
  fixes a b a' b' :: string
  assumes "CHR '':'' \<notin> set a" and "CHR '':'' \<notin> set a'"
    and "a @ CHR '':'' # b = a' @ CHR '':'' # b'"
  shows "a = a' \<and> b = b'"
  using assms
  by (induction a arbitrary: a') (auto simp: Cons_eq_append_conv append_eq_Cons_conv)

lemma cache_key_inj:
  assumes "CHR '':'' \<notin> set f" "CHR '':'' \<notin> set f'" "CHR '':'' \<notin> set to" "CHR '':'' \<notin> set to'"
    and "cache_key txt f to = cache_key txt' f' to'"
  shows "f = f' \<and> to = to' \<and> txt = txt'"
proof -
  from assms(5)
  have e: "f @ CHR '':'' # (to @ CHR '':'' # txt) = f' @ CHR '':'' # (to' @ CHR '':'' # txt')"
    by (simp add: cache_key_def)
  from cache_key_split [OF assms(1,2) e]
  have "f = f'" and e2: "to @ CHR '':'' # txt = to' @ CHR '':'' # txt'"
    by auto
  from cache_key_split [OF assms(3,4) e2] \<open>f = f'\<close> show ?thesis
    by auto
qed

lemma Translate_hit:
  "cache t (cache_key txt f to) = Some e \<Longrightarrow> now1 - createdAt e \<le> cacheTTL t \<Longrightarrow>
   Translate t ol txt f to now1 now2 = (Some (entry_text e), t, ol)"
  by (simp add: Translate_def Let_def)

lemma Translate_miss:
  "cache t (cache_key txt f to) = None
     \<or> (\<exists>e. cache t (cache_key txt f to) = Some e \<and> cacheTTL t < now1 - createdAt e) \<Longrightarrow>
   Translate t ol txt f to now1 now2 =
     (let req = (url t @ ''/api/generate'', model t, translate_prompt txt f to);
          ol' = ol\<lparr>requests := requests ol @ [req]\<rparr>
      in case respond ol (requests ol) req of
           None \<Rightarrow> (None, t, ol')
         | Some s \<Rightarrow>
             (Some s,
              t\<lparr>cache := (cache t)(cache_key txt f to \<mapsto> \<lparr>entry_text = s, createdAt = now2\<rparr>)\<rparr>,
              ol'))"
  by (auto simp add: Translate_def generate_def Let_def split: option.splits)

text \<open>
  Claim C4, as stated, fails on its last part. The cache is keyed by the concatenation
  \<open>source:target:text\<close>, so two different triples share a key when a language code contains
  a colon. After the single translation of \<open>d\<close> from \<open>a:b\<close> to \<open>c\<close>, the never-stored
  triple (\<open>a\<close>, \<open>b:c\<close>, \<open>d\<close>) is a hit: the call returns the other triple's stored result
  and the external service is not called.
\<close>

theorem Translate_key_collision:
  "cache (NewTranslator ''http://localhost:11434'' ''llama3.2'' (10 * Minute)) (cache_key ''d'' ''a'' ''b:c'') = None
   \<and> Translate (fst stored_once) (snd stored_once) ''d'' ''a'' ''b:c'' 1 1 =
       (Some (translate_prompt ''d'' ''a:b'' ''c''), fst stored_once, snd stored_once)
   \<and> translate_prompt ''d'' ''a:b'' ''c'' \<noteq> translate_prompt ''d'' ''a'' ''b:c''"
  by (simp add: stored_once_def Translate_def generate_def NewTranslator_def echo_service_def
      cache_key_def translate_prompt_def Let_def Minute_def Second_def)

text \<open>
  Claim C4, amended. For every translator state, text and language pair: when an entry is
  stored under the concatenated key \<open>source:target:text\<close> and its age at the read does not
  exceed the TTL, Translate returns the stored text and leaves translator and service
  untouched (no request is sent). When no entry is stored under that key, or the stored
  entry's age exceeds the TTL, the call is a miss: exactly one request, the translation
  prompt, is sent to the service and its answer is returned; a successful answer is stored
  with the time of storing, a failed one leaves the translator (and the expired entry) as it
  was. Triples whose language codes contain no colon have different keys.
\<close>

theorem Translate_cache_lookup:
  "(cache t (cache_key txt f to) = Some e \<and> now1 - createdAt e \<le> cacheTTL t \<longrightarrow>
      Translate t ol txt f to now1 now2 = (Some (entry_text e), t, ol))
   \<and> (cache t (cache_key txt f to) = None
        \<or> cache t (cache_key txt f to) = Some e \<and> cacheTTL t < now1 - createdAt e \<longrightarrow>
      fst (Translate t ol txt f to now1 now2)
        = respond ol (requests ol) (url t @ ''/api/generate'', model t, translate_prompt txt f to)
      \<and> requests (snd (snd (Translate t ol txt f to now1 now2)))
        = requests ol @ [(url t @ ''/api/generate'', model t, translate_prompt txt f to)]
      \<and> (case respond ol (requests ol) (url t @ ''/api/generate'', model t, translate_prompt txt f to) of
            None \<Rightarrow> fst (snd (Translate t ol txt f to now1 now2)) = t
          | Some s \<Rightarrow> cache (fst (snd (Translate t ol txt f to now1 now2))) (cache_key txt f to)
                = Some \<lparr>entry_text = s, createdAt = now2\<rparr>))
   \<and> (CHR '':'' \<notin> set f \<and> CHR '':'' \<notin> set f' \<and> CHR '':'' \<notin> set to \<and> CHR '':'' \<notin> set to'
        \<and> cache_key txt f to = cache_key txt' f' to' \<longrightarrow> f = f' \<and> to = to' \<and> txt = txt')"
proof (intro conjI impI)
  assume "cache t (cache_key txt f to) = Some e \<and> now1 - createdAt e \<le> cacheTTL t"
  then show "Translate t ol txt f to now1 now2 = (Some (entry_text e), t, ol)"
    by (simp add: Translate_hit)
next
  assume a: "cache t (cache_key txt f to) = None
        \<or> cache t (cache_key txt f to) = Some e \<and> cacheTTL t < now1 - createdAt e"
  then have m: "cache t (cache_key txt f to) = None
     \<or> (\<exists>e. cache t (cache_key txt f to) = Some e \<and> cacheTTL t < now1 - createdAt e)"
    by blast
  show "fst (Translate t ol txt f to now1 now2)
        = respond ol (requests ol) (url t @ ''/api/generate'', model t, translate_prompt txt f to)"
    by (simp add: Translate_miss [OF m] Let_def split: option.split)
  show "requests (snd (snd (Translate t ol txt f to now1 now2)))
        = requests ol @ [(url t @ ''/api/generate'', model t, translate_prompt txt f to)]"
    by (simp add: Translate_miss [OF m] Let_def split: option.split)
  show "case respond ol (requests ol) (url t @ ''/api/generate'', model t, translate_prompt txt f to) of
            None \<Rightarrow> fst (snd (Translate t ol txt f to now1 now2)) = t
          | Some s \<Rightarrow> cache (fst (snd (Translate t ol txt f to now1 now2))) (cache_key txt f to)
                = Some \<lparr>entry_text = s, createdAt = now2\<rparr>"
    by (simp add: Translate_miss [OF m] Let_def split: option.split)
next
  assume "CHR '':'' \<notin> set f \<and> CHR '':'' \<notin> set f' \<and> CHR '':'' \<notin> set to \<and> CHR '':'' \<notin> set to'
        \<and> cache_key txt f to = cache_key txt' f' to'"
  then have r: "f = f' \<and> to = to' \<and> txt = txt'"
    using cache_key_inj by blast
  from r show "f = f'" by simp
  from r show "to = to'" by simp
  from r show "txt = txt'" by simp
qed

lemma stored_once_eq:
  "stored_once =
     (\<lparr>url = ''http://localhost:11434'', model = ''llama3.2'', cacheTTL = 10 * Minute,
       cache = [cache_key ''d'' ''a:b'' ''c'' \<mapsto>
                  \<lparr>entry_text = translate_prompt ''d'' ''a:b'' ''c'', createdAt = 0\<rparr>]\<rparr>,
      echo_service\<lparr>requests :=
        [(''http://localhost:11434/api/generate'', ''llama3.2'', translate_prompt ''d'' ''a:b'' ''c'')]\<rparr>)"
  by (simp add: stored_once_def Translate_def generate_def NewTranslator_def echo_service_def Let_def)

theorem Translate_cache_lookup_witness:
  "Translate (fst stored_once) (snd stored_once) ''d'' ''a:b'' ''c'' (10 * Minute) (10 * Minute)
     = (Some (translate_prompt ''d'' ''a:b'' ''c''), fst stored_once, snd stored_once)
   \<and> requests (snd (snd (Translate (fst stored_once) (snd stored_once) ''d'' ''a:b'' ''c''
        (10 * Minute + 1) (10 * Minute + 2))))
     = requests (snd stored_once) @
         [(''http://localhost:11434/api/generate'', ''llama3.2'', translate_prompt ''d'' ''a:b'' ''c'')]
   \<and> cache (fst (snd (Translate (fst stored_once) (snd stored_once) ''d'' ''a:b'' ''c''
        (10 * Minute + 1) (10 * Minute + 2)))) (cache_key ''d'' ''a:b'' ''c'')
     = Some \<lparr>entry_text = translate_prompt ''d'' ''a:b'' ''c'', createdAt = 10 * Minute + 2\<rparr>
   \<and> fst (Translate (fst stored_once) (snd stored_once) ''hello'' ''en'' ''pt'' 5 6)
     = Some (translate_prompt ''hello'' ''en'' ''pt'')
   \<and> cache_key ''hello'' ''en'' ''pt'' \<noteq> cache_key ''hello'' ''en'' ''fr''"
proof -
  let ?t = "fst stored_once" and ?ol = "snd stored_once"
  let ?e = "\<lparr>entry_text = translate_prompt ''d'' ''a:b'' ''c'', createdAt = 0\<rparr>"
  have c1: "cache ?t (cache_key ''d'' ''a:b'' ''c'') = Some ?e"
    by (simp add: stored_once_eq)
  have ttl: "cacheTTL ?t = 10 * Minute" and u: "url ?t = ''http://localhost:11434''"
    and m: "model ?t = ''llama3.2''"
    by (simp_all add: stored_once_eq)
  have c2: "cache ?t (cache_key ''hello'' ''en'' ''pt'') = None"
    by (simp add: stored_once_eq cache_key_def)
  have rsp: "\<And>h p. respond ?ol h (''http://localhost:11434/api/generate'', ''llama3.2'', p) = Some p"
    by (simp add: stored_once_eq echo_service_def)
  note T1 = Translate_cache_lookup [where t = "?t" and ol = "?ol" and ?txt = "''d''" and f = "''a:b''"
      and ?to = "''c''" and e = "?e" and ?now1.0 = "10 * Minute" and ?now2.0 = "10 * Minute"]
  note T2 = Translate_cache_lookup [where t = "?t" and ol = "?ol" and ?txt = "''d''" and f = "''a:b''"
      and ?to = "''c''" and e = "?e" and ?now1.0 = "10 * Minute + 1" and ?now2.0 = "10 * Minute + 2"]
  note T3 = Translate_cache_lookup [where t = "?t" and ol = "?ol" and ?txt = "''hello''" and f = "''en''"
      and ?to = "''pt''" and ?now1.0 = 5 and ?now2.0 = 6 and f' = "''en''" and ?to' = "''fr''"
      and ?txt' = "''hello''"]
  have A: "Translate ?t ?ol ''d'' ''a:b'' ''c'' (10 * Minute) (10 * Minute)
     = (Some (translate_prompt ''d'' ''a:b'' ''c''), ?t, ?ol)"
    using T1 c1 ttl by simp
  have B: "requests (snd (snd (Translate ?t ?ol ''d'' ''a:b'' ''c'' (10 * Minute + 1) (10 * Minute + 2))))
     = requests ?ol @ [(''http://localhost:11434/api/generate'', ''llama3.2'', translate_prompt ''d'' ''a:b'' ''c'')]"
    and C: "cache (fst (snd (Translate ?t ?ol ''d'' ''a:b'' ''c'' (10 * Minute + 1) (10 * Minute + 2))))
        (cache_key ''d'' ''a:b'' ''c'')
     = Some \<lparr>entry_text = translate_prompt ''d'' ''a:b'' ''c'', createdAt = 10 * Minute + 2\<rparr>"
    using T2 c1 ttl u m rsp by simp_all
  have D: "fst (Translate ?t ?ol ''hello'' ''en'' ''pt'' 5 6) = Some (translate_prompt ''hello'' ''en'' ''pt'')"
    using T3 c2 u m rsp by simp
  have E: "cache_key ''hello'' ''en'' ''pt'' \<noteq> cache_key ''hello'' ''en'' ''fr''"
    using T3 by auto
  from A B C D E show ?thesis by blast
qed

section \<open>The example run, evaluated\<close>

lemmas model_defs =
  handleSetProfile_def handleStartChat_def handleJoinRoom_def handleEndChat_def
  ws_connect_def ws_receive_def ws_iteration_def ws_cleanup_def timer_fire_def
  prepareMessage_def reopen_guard_def reopen_def
  main_init_def NewHub_def NewClient_def NewRoom_def AddClient_def RemoveClient_def
  CreateRoom_def JoinRoom_def GetRoom_def GetClient_def IsAgentInRoom_def RemoveRoom_def
  room_set_def client_set_def conn_write_def timer_stop_def AfterFunc_def
  NewRateLimiter_def Allow_def limits_at_def NewTranslator_def generate_def DetectLanguage_def
  Translate_def cache_key_def TrimPrefix_def TrimSpace_def leading_def space_runes_def
  Minute_def Second_def Let_def

lemmas demo_consts = agent_token_def customer_token_def room_token_def room_id_def bearer_def
  demo_respond_def detect_prompt_def translate_prompt_def

lemma demo3_eq:
  "demo3 = demo0\<lparr>
     clients := (clients demo0)
       (0 := \<lparr>Token = agent_token, Name = ''Bob'', Language = ''en'', Connection = None\<rparr>,
        1 := \<lparr>Token = customer_token, Name = ''Alice'', Language = [], Connection = None\<rparr>),
     rooms := (rooms demo0)
       (0 := \<lparr>ID = room_id, Customer = Some 1, Agent = Some 0, Status = RoomActive,
              Messages = [\<lparr>Type = ''message'', RoomID = room_id, From = ''Alice'',
                           Content = ''Ola'', TranslatedContent = []\<rparr>],
              CloseTimer = None\<rparr>),
     nclients := 2, nrooms := 1,
     hub := \<lparr>Clients = [(agent_token, 0), (customer_token, 1)], Rooms = [(room_id, 0)]\<rparr>\<rparr>"
  by (simp add: demo3_def demo2_def demo1_def demo0_def model_defs demo_consts)

lemma demo5_eq:
  "demo5 = demo0\<lparr>
     clients := (clients demo0)
       (0 := \<lparr>Token = agent_token, Name = ''Bob'', Language = ''en'', Connection = Some 0\<rparr>,
        1 := \<lparr>Token = customer_token, Name = ''Alice'', Language = ''pt'', Connection = Some 1\<rparr>),
     rooms := (rooms demo0)
       (0 := \<lparr>ID = room_id, Customer = Some 1, Agent = Some 0, Status = RoomActive,
              Messages =
               [\<lparr>Type = ''message'', RoomID = room_id, From = ''Alice'',
                 Content = ''Ola'', TranslatedContent = []\<rparr>],
              CloseTimer = None\<rparr>),
     nclients := 2, nrooms := 1,
     hub := \<lparr>Clients = [(agent_token, 0), (customer_token, 1)], Rooms = [(room_id, 0)]\<rparr>,
     sessions :=
       [0 \<mapsto> \<lparr>s_client = 0, s_room = 0, s_recipient = Some 1\<rparr>,
        1 \<mapsto> \<lparr>s_client = 1, s_room = 0, s_recipient = Some 0\<rparr>],
     nconns := 2,
     translator :=
       (translator demo0)\<lparr>cache :=
        [cache_key ''Ola'' ''pt'' ''en'' \<mapsto> \<lparr>entry_text = ''Hello'', createdAt = 0\<rparr>]\<rparr>,
     ollama :=
       (ollama demo0)\<lparr>requests :=
        [(''http://localhost:11434/api/generate'', ''llama3.2'', detect_prompt ''Ola''),
         (''http://localhost:11434/api/generate'', ''llama3.2'',
          translate_prompt ''Ola'' ''pt'' ''en'')]\<rparr>,
     wire :=
       [(0, OutMessage
            \<lparr>Type = ''message'', RoomID = room_id, From = ''Alice'',
                Content = ''Ola'', TranslatedContent = ''Hello''\<rparr>)]\<rparr>"
  by (simp add: demo5_def demo4_def demo3_eq demo0_def model_defs demo_consts)

lemma demo_ended_eq:
  "demo_ended = demo0\<lparr>
     clients := (clients demo0)
       (0 := \<lparr>Token = agent_token, Name = ''Bob'', Language = ''en'', Connection = Some 0\<rparr>,
        1 := \<lparr>Token = customer_token, Name = ''Alice'', Language = ''pt'', Connection = Some 1\<rparr>),
     rooms := (rooms demo0)
       (0 := \<lparr>ID = room_id, Customer = Some 1, Agent = None, Status = RoomClosing,
              Messages =
               [\<lparr>Type = ''message'', RoomID = room_id, From = ''Alice'',
                 Content = ''Ola'', TranslatedContent = []\<rparr>],
              CloseTimer = Some 0\<rparr>),
     nclients := 2, nrooms := 1,
     hub := \<lparr>Clients = [(agent_token, 0), (customer_token, 1)], Rooms = [(room_id, 0)]\<rparr>,
     timers := [0 \<mapsto> \<lparr>due = 10 * Second + 5 * Minute, timer_room = 0\<rparr>],
     ntimers := 1,
     sessions :=
       [0 \<mapsto> \<lparr>s_client = 0, s_room = 0, s_recipient = Some 1\<rparr>,
        1 \<mapsto> \<lparr>s_client = 1, s_room = 0, s_recipient = Some 0\<rparr>],
     nconns := 2,
     translator :=
       (translator demo0)\<lparr>cache :=
        [cache_key ''Ola'' ''pt'' ''en'' \<mapsto> \<lparr>entry_text = ''Hello'', createdAt = 0\<rparr>]\<rparr>,
     ollama :=
       (ollama demo0)\<lparr>requests :=
        [(''http://localhost:11434/api/generate'', ''llama3.2'', detect_prompt ''Ola''),
         (''http://localhost:11434/api/generate'', ''llama3.2'',
          translate_prompt ''Ola'' ''pt'' ''en'')]\<rparr>,
     wire :=
       [(0, OutMessage
            \<lparr>Type = ''message'', RoomID = room_id, From = ''Alice'',
                Content = ''Ola'', TranslatedContent = ''Hello''\<rparr>),
        (1, OutChatEnded room_id ''agent_left'')]\<rparr>"
  by (simp add: demo_ended_def demo5_eq demo0_def model_defs demo_consts)

lemma demo_reopened_once_eq:
  "demo_reopened_once = demo0\<lparr>
     clients := (clients demo0)
       (0 := \<lparr>Token = agent_token, Name = ''Bob'', Language = ''en'', Connection = Some 0\<rparr>,
        1 := \<lparr>Token = customer_token, Name = ''Alice'', Language = ''pt'', Connection = Some 1\<rparr>),
     rooms := (rooms demo0)
       (0 := \<lparr>ID = room_id, Customer = Some 1, Agent = None, Status = RoomWaiting,
              Messages =
               [\<lparr>Type = ''message'', RoomID = room_id, From = ''Alice'',
                 Content = ''Ola'', TranslatedContent = []\<rparr>,
                \<lparr>Type = ''message'', RoomID = room_id, From = ''Alice'',
                 Content = ''Ola'', TranslatedContent = []\<rparr>],
              CloseTimer = None\<rparr>),
     nclients := 2, nrooms := 1,
     hub := \<lparr>Clients = [(agent_token, 0), (customer_token, 1)], Rooms = [(room_id, 0)]\<rparr>,
     timers := Map.empty,
     ntimers := 1,
     limiter := (limiter demo0)\<lparr>limits := [customer_token \<mapsto> [11 * Second]]\<rparr>,
     sessions :=
       [0 \<mapsto> \<lparr>s_client = 0, s_room = 0, s_recipient = Some 1\<rparr>,
        1 \<mapsto> \<lparr>s_client = 1, s_room = 0, s_recipient = Some 0\<rparr>],
     nconns := 2,
     translator :=
       (translator demo0)\<lparr>cache :=
        [cache_key ''Ola'' ''pt'' ''en'' \<mapsto> \<lparr>entry_text = ''Hello'', createdAt = 0\<rparr>]\<rparr>,
     ollama :=
       (ollama demo0)\<lparr>requests :=
        [(''http://localhost:11434/api/generate'', ''llama3.2'', detect_prompt ''Ola''),
         (''http://localhost:11434/api/generate'', ''llama3.2'',
          translate_prompt ''Ola'' ''pt'' ''en'')]\<rparr>,
     wire :=
       [(0, OutMessage
            \<lparr>Type = ''message'', RoomID = room_id, From = ''Alice'',
                Content = ''Ola'', TranslatedContent = ''Hello''\<rparr>),
        (1, OutChatEnded room_id ''agent_left''),
        (0, OutMessage
            \<lparr>Type = ''message'', RoomID = room_id, From = ''Alice'',
                Content = ''Ola'', TranslatedContent = ''Hello''\<rparr>)]\<rparr>"
  by (simp add: demo_reopened_once_def demo_ended_eq demo0_def model_defs demo_consts)

lemma demo_ended_twice_eq:
  "demo_ended_twice = demo0\<lparr>
     clients := (clients demo0)
       (0 := \<lparr>Token = agent_token, Name = ''Bob'', Language = ''en'', Connection = Some 0\<rparr>,
        1 := \<lparr>Token = customer_token, Name = ''Alice'', Language = ''pt'', Connection = Some 1\<rparr>),
     rooms := (rooms demo0)
       (0 := \<lparr>ID = room_id, Customer = Some 1, Agent = None, Status = RoomClosing,
              Messages =
               [\<lparr>Type = ''message'', RoomID = room_id, From = ''Alice'',
                 Content = ''Ola'', TranslatedContent = []\<rparr>],
              CloseTimer = Some 1\<rparr>),
     nclients := 2, nrooms := 1,
     hub := \<lparr>Clients = [(agent_token, 0), (customer_token, 1)], Rooms = [(room_id, 0)]\<rparr>,
     timers :=
       [0 \<mapsto> \<lparr>due = 10 * Second + 5 * Minute, timer_room = 0\<rparr>,
        1 \<mapsto> \<lparr>due = 20 * Second + 5 * Minute, timer_room = 0\<rparr>],
     ntimers := 2,
     sessions :=
       [0 \<mapsto> \<lparr>s_client = 0, s_room = 0, s_recipient = Some 1\<rparr>,
        1 \<mapsto> \<lparr>s_client = 1, s_room = 0, s_recipient = Some 0\<rparr>],
     nconns := 2,
     translator :=
       (translator demo0)\<lparr>cache :=
        [cache_key ''Ola'' ''pt'' ''en'' \<mapsto> \<lparr>entry_text = ''Hello'', createdAt = 0\<rparr>]\<rparr>,
     ollama :=
       (ollama demo0)\<lparr>requests :=
        [(''http://localhost:11434/api/generate'', ''llama3.2'', detect_prompt ''Ola''),
         (''http://localhost:11434/api/generate'', ''llama3.2'',
          translate_prompt ''Ola'' ''pt'' ''en'')]\<rparr>,
     wire :=
       [(0, OutMessage
            \<lparr>Type = ''message'', RoomID = room_id, From = ''Alice'',
                Content = ''Ola'', TranslatedContent = ''Hello''\<rparr>),
        (1, OutChatEnded room_id ''agent_left''),
        (1, OutChatEnded room_id ''agent_left'')]\<rparr>"
  by (simp add: demo_ended_twice_def demo_ended_eq demo0_def model_defs demo_consts)

lemma demo_reopened_eq:
  "demo_reopened = demo0\<lparr>
     clients := (clients demo0)
       (0 := \<lparr>Token = agent_token, Name = ''Bob'', Language = ''en'', Connection = Some 0\<rparr>,
        1 := \<lparr>Token = customer_token, Name = ''Alice'', Language = ''pt'', Connection = Some 1\<rparr>),
     rooms := (rooms demo0)
       (0 := \<lparr>ID = room_id, Customer = Some 1, Agent = None, Status = RoomWaiting,
              Messages =
               [\<lparr>Type = ''message'', RoomID = room_id, From = ''Alice'',
                 Content = ''Ola'', TranslatedContent = []\<rparr>,
                \<lparr>Type = ''message'', RoomID = room_id, From = ''Alice'',
                 Content = ''Ola'', TranslatedContent = []\<rparr>],
              CloseTimer = None\<rparr>),
     nclients := 2, nrooms := 1,
     hub := \<lparr>Clients = [(agent_token, 0), (customer_token, 1)], Rooms = [(room_id, 0)]\<rparr>,
     timers := [0 \<mapsto> \<lparr>due = 10 * Second + 5 * Minute, timer_room = 0\<rparr>],
     ntimers := 2,
     limiter := (limiter demo0)\<lparr>limits := [customer_token \<mapsto> [21 * Second]]\<rparr>,
     sessions :=
       [0 \<mapsto> \<lparr>s_client = 0, s_room = 0, s_recipient = Some 1\<rparr>,
        1 \<mapsto> \<lparr>s_client = 1, s_room = 0, s_recipient = Some 0\<rparr>],
     nconns := 2,
     translator :=
       (translator demo0)\<lparr>cache :=
        [cache_key ''Ola'' ''pt'' ''en'' \<mapsto> \<lparr>entry_text = ''Hello'', createdAt = 0\<rparr>]\<rparr>,
     ollama :=
       (ollama demo0)\<lparr>requests :=
        [(''http://localhost:11434/api/generate'', ''llama3.2'', detect_prompt ''Ola''),
         (''http://localhost:11434/api/generate'', ''llama3.2'',
          translate_prompt ''Ola'' ''pt'' ''en'')]\<rparr>,
     wire :=
       [(0, OutMessage
            \<lparr>Type = ''message'', RoomID = room_id, From = ''Alice'',
                Content = ''Ola'', TranslatedContent = ''Hello''\<rparr>),
        (1, OutChatEnded room_id ''agent_left''),
        (1, OutChatEnded room_id ''agent_left''),
        (0, OutMessage
            \<lparr>Type = ''message'', RoomID = room_id, From = ''Alice'',
                Content = ''Ola'', TranslatedContent = ''Hello''\<rparr>)]\<rparr>"
  by (simp add: demo_reopened_def demo_ended_twice_eq demo0_def model_defs demo_consts)

lemma demo_fired_eq:
  "demo_fired = demo0\<lparr>
     clients := (clients demo0)
       (0 := \<lparr>Token = agent_token, Name = ''Bob'', Language = ''en'', Connection = Some 0\<rparr>,
        1 := \<lparr>Token = customer_token, Name = ''Alice'', Language = ''pt'', Connection = Some 1\<rparr>),
     rooms := (rooms demo0)
       (0 := \<lparr>ID = room_id, Customer = Some 1, Agent = None, Status = RoomClosed,
              Messages =
               [\<lparr>Type = ''message'', RoomID = room_id, From = ''Alice'',
                 Content = ''Ola'', TranslatedContent = []\<rparr>,
                \<lparr>Type = ''message'', RoomID = room_id, From = ''Alice'',
                 Content = ''Ola'', TranslatedContent = []\<rparr>],
              CloseTimer = None\<rparr>),
     nclients := 2, nrooms := 1,
     hub := \<lparr>Clients = [(agent_token, 0), (customer_token, 1)], Rooms = []\<rparr>,
     timers := Map.empty,
     ntimers := 2,
     limiter := (limiter demo0)\<lparr>limits := [customer_token \<mapsto> [21 * Second]]\<rparr>,
     sessions :=
       [0 \<mapsto> \<lparr>s_client = 0, s_room = 0, s_recipient = Some 1\<rparr>,
        1 \<mapsto> \<lparr>s_client = 1, s_room = 0, s_recipient = Some 0\<rparr>],
     nconns := 2,
     translator :=
       (translator demo0)\<lparr>cache :=
        [cache_key ''Ola'' ''pt'' ''en'' \<mapsto> \<lparr>entry_text = ''Hello'', createdAt = 0\<rparr>]\<rparr>,
     ollama :=
       (ollama demo0)\<lparr>requests :=
        [(''http://localhost:11434/api/generate'', ''llama3.2'', detect_prompt ''Ola''),
         (''http://localhost:11434/api/generate'', ''llama3.2'',
          translate_prompt ''Ola'' ''pt'' ''en'')]\<rparr>,
     wire :=
       [(0, OutMessage
            \<lparr>Type = ''message'', RoomID = room_id, From = ''Alice'',
                Content = ''Ola'', TranslatedContent = ''Hello''\<rparr>),
        (1, OutChatEnded room_id ''agent_left''),
        (1, OutChatEnded room_id ''agent_left''),
        (0, OutMessage
            \<lparr>Type = ''message'', RoomID = room_id, From = ''Alice'',
                Content = ''Ola'', TranslatedContent = ''Hello''\<rparr>),
        (1, OutChatEnded room_id ''closed'')]\<rparr>"
  by (simp add: demo_fired_def demo_reopened_eq demo0_def model_defs demo_consts)

lemma demo_two_sent_eq:
  "demo_two_sent = demo0\<lparr>
     clients := (clients demo0)
       (0 := \<lparr>Token = agent_token, Name = ''Bob'', Language = ''en'', Connection = Some 0\<rparr>,
        1 := \<lparr>Token = customer_token, Name = ''Alice'', Language = ''pt'', Connection = Some 1\<rparr>),
     rooms := (rooms demo0)
       (0 := \<lparr>ID = room_id, Customer = Some 1, Agent = Some 0, Status = RoomActive,
              Messages =
               [\<lparr>Type = ''message'', RoomID = room_id, From = ''Alice'',
                 Content = ''Ola'', TranslatedContent = []\<rparr>,
                \<lparr>Type = ''message'', RoomID = room_id, From = ''Alice'',
                 Content = ''Ola'', TranslatedContent = []\<rparr>,
                \<lparr>Type = ''message'', RoomID = room_id, From = ''Alice'',
                 Content = ''Ola'', TranslatedContent = []\<rparr>],
              CloseTimer = None\<rparr>),
     nclients := 2, nrooms := 1,
     hub := \<lparr>Clients = [(agent_token, 0), (customer_token, 1)], Rooms = [(room_id, 0)]\<rparr>,
     limiter := (limiter demo0)\<lparr>limits := [customer_token \<mapsto> [Second, 2 * Second]]\<rparr>,
     sessions :=
       [0 \<mapsto> \<lparr>s_client = 0, s_room = 0, s_recipient = Some 1\<rparr>,
        1 \<mapsto> \<lparr>s_client = 1, s_room = 0, s_recipient = Some 0\<rparr>],
     nconns := 2,
     translator :=
       (translator demo0)\<lparr>cache :=
        [cache_key ''Ola'' ''pt'' ''en'' \<mapsto> \<lparr>entry_text = ''Hello'', createdAt = 0\<rparr>]\<rparr>,
     ollama :=
       (ollama demo0)\<lparr>requests :=
        [(''http://localhost:11434/api/generate'', ''llama3.2'', detect_prompt ''Ola''),
         (''http://localhost:11434/api/generate'', ''llama3.2'',
          translate_prompt ''Ola'' ''pt'' ''en'')]\<rparr>,
     wire :=
       [(0, OutMessage
            \<lparr>Type = ''message'', RoomID = room_id, From = ''Alice'',
                Content = ''Ola'', TranslatedContent = ''Hello''\<rparr>),
        (0, OutMessage
            \<lparr>Type = ''message'', RoomID = room_id, From = ''Alice'',
                Content = ''Ola'', TranslatedContent = ''Hello''\<rparr>),
        (0, OutMessage
            \<lparr>Type = ''message'', RoomID = room_id, From = ''Alice'',
                Content = ''Ola'', TranslatedContent = ''Hello''\<rparr>)]\<rparr>"
  by (simp add: demo_two_sent_def demo5_eq demo0_def model_defs demo_consts)

lemma demo_reachable:
  "reachable demo2" "reachable demo3" "reachable demo5" "reachable demo_ended_twice"
  "reachable demo_reopened" "reachable demo_two_sent" "reachable demo_ended"
  unfolding demo_two_sent_def demo_reopened_def demo_ended_twice_def demo_ended_def demo5_def
    demo4_def demo3_def demo2_def demo1_def demo0_def
  by (intro reachable.intros)+

section \<open>JoinRoom\<close>

text \<open>
  Claim C2. JoinRoom makes its four checks in this order, and the first that fails decides
  the error: it fails with NotFound exactly when the room id is unknown; with InvalidState
  exactly when the room is known and its status is not waiting; with AlreadyOccupied exactly
  when the room is known and waiting and an agent is assigned; with MissingCustomer exactly
  when the room is known, waiting and without agent, and has no customer. It succeeds
  exactly when none of the four failure conditions holds, and then it returns the room of
  that id with the agent assigned and the status active, and changes nothing else.
\<close>

theorem JoinRoom_outcomes:
  "(JoinRoom w roomID agent = Inl (NotFound roomID) \<longleftrightarrow> GetRoom w roomID = None)
   \<and> (JoinRoom w roomID agent = Inl (InvalidState roomID) \<longleftrightarrow>
        (\<exists>room. GetRoom w roomID = Some room \<and> Status (rooms w room) \<noteq> RoomWaiting))
   \<and> (JoinRoom w roomID agent = Inl (AlreadyOccupied roomID) \<longleftrightarrow>
        (\<exists>room. GetRoom w roomID = Some room \<and> Status (rooms w room) = RoomWaiting
           \<and> Agent (rooms w room) \<noteq> None))
   \<and> (JoinRoom w roomID agent = Inl (MissingCustomer roomID) \<longleftrightarrow>
        (\<exists>room. GetRoom w roomID = Some room \<and> Status (rooms w room) = RoomWaiting
           \<and> Agent (rooms w room) = None \<and> Customer (rooms w room) = None))
   \<and> ((\<exists>res. JoinRoom w roomID agent = Inr res) \<longleftrightarrow>
        (\<exists>room. GetRoom w roomID = Some room \<and> Status (rooms w room) = RoomWaiting
           \<and> Agent (rooms w room) = None \<and> Customer (rooms w room) \<noteq> None))
   \<and> (\<forall>room w'. JoinRoom w roomID agent = Inr (room, w') \<longrightarrow>
        GetRoom w roomID = Some room
        \<and> Agent (rooms w' room) = agent \<and> Status (rooms w' room) = RoomActive
        \<and> w' = w\<lparr>rooms := (rooms w)(room := (rooms w room)\<lparr>Agent := agent, Status := RoomActive\<rparr>)\<rparr>)"
proof (cases "map_of (Rooms (hub w)) roomID")
  case None
  then show ?thesis
    by (simp add: JoinRoom_def GetRoom_def)
next
  case (Some room)
  show ?thesis
  proof (cases "Status (rooms w room) = RoomWaiting")
    case False
    with Some show ?thesis
      by (simp add: JoinRoom_def GetRoom_def)
  next
    case True
    with Some show ?thesis
      by (cases "Agent (rooms w room)"; cases "Customer (rooms w room)")
         (auto simp: JoinRoom_def GetRoom_def)
  qed
qed

theorem JoinRoom_outcomes_witness:
  "JoinRoom demo2 room_id (Some 0) = Inr (0, demo3)
   \<and> GetRoom demo2 room_id = Some 0
   \<and> Agent (rooms demo3 0) = Some 0 \<and> Status (rooms demo3 0) = RoomActive
   \<and> demo3 = demo2\<lparr>rooms := (rooms demo2)(0 := (rooms demo2 0)\<lparr>Agent := Some 0, Status := RoomActive\<rparr>)\<rparr>"
proof -
  have j: "JoinRoom demo2 room_id (Some 0) = Inr (0, demo3)"
    by (simp add: demo3_def demo2_def demo1_def demo0_def model_defs demo_consts)
  from JoinRoom_outcomes [of demo2 room_id "Some 0"] j show ?thesis
    by blast
qed

section \<open>Waiting rooms have no agent\<close>




section \<open>The registry invariant\<close>

lemma registered_eq:
  "clients w' = clients w \<Longrightarrow> Clients (hub w') = Clients (hub w) \<Longrightarrow> registered w' p = registered w p"
  by (cases p) (simp_all add: registered_def GetClient_def)

lemma registry_inv_iff:
  "registry_inv w \<longleftrightarrow>
     (\<forall>(rid, room) \<in> set (Rooms (hub w)).
        registered w (Customer (rooms w room)) \<and> registered w (Agent (rooms w room)))"
  by (simp add: registry_inv_def list_all_iff)

lemma registry_invD:
  "registry_inv w \<Longrightarrow> (rid, room) \<in> set (Rooms (hub w)) \<Longrightarrow>
   registered w (Customer (rooms w room)) \<and> registered w (Agent (rooms w room))"
  by (auto simp: registry_inv_iff)

lemma registry_invI:
  "(\<And>rid room. (rid, room) \<in> set (Rooms (hub w)) \<Longrightarrow>
      registered w (Customer (rooms w room)) \<and> registered w (Agent (rooms w room)))
   \<Longrightarrow> registry_inv w"
  by (auto simp: registry_inv_iff)

lemma token_in_use_iff:
  "token_in_use w token \<longleftrightarrow>
     (\<exists>(rid, room) \<in> set (Rooms (hub w)).
        has_token w (Customer (rooms w room)) token \<or> has_token w (Agent (rooms w room)) token)"
  by (simp add: token_in_use_def list_ex_iff)

lemma part_ok_registered: "part_ok w p \<Longrightarrow> registered w p"
  by (cases p) (simp_all add: part_ok_def registered_def)

lemma reachable_registry_inv:
  assumes "reachable w"
  shows "registry_inv w"
proof -
  from assms have wf: "wf_world w" by (rule reachable_wf)
  have "registered w (Customer (rooms w room)) \<and> registered w (Agent (rooms w room))"
    if "(rid, room) \<in> set (Rooms (hub w))" for rid room
  proof -
    from wf that have "room < nrooms w" by (auto simp: wf_world_def)
    with wf show ?thesis by (simp add: wf_world_def part_ok_registered)
  qed
  then show ?thesis by (auto simp: registry_inv_iff)
qed

lemma registry_inv_CreateRoom:
  assumes "registry_inv w" and "registered w customer"
  shows "registry_inv (snd (CreateRoom w token customer))"
proof -
  let ?w' = "snd (CreateRoom w token customer)"
  have f: "clients ?w' = clients w" "Clients (hub ?w') = Clients (hub w)"
    "Rooms (hub ?w') = AList.update (''room_'' @ token) (nrooms w) (Rooms (hub w))"
    by (simp_all add: CreateRoom_def NewRoom_def Let_def)
  have old: "rooms ?w' r = rooms w r" if "r \<noteq> nrooms w" for r
    using that by (simp add: CreateRoom_def NewRoom_def Let_def)
  have new: "Customer (rooms ?w' (nrooms w)) = customer" "Agent (rooms ?w' (nrooms w)) = None"
    by (simp_all add: CreateRoom_def NewRoom_def Let_def)
  have reg: "registered ?w' p = registered w p" for p
    by (rule registered_eq) (simp_all add: f)
  have "registered ?w' (Customer (rooms ?w' room)) \<and> registered ?w' (Agent (rooms ?w' room))"
    if "(rid, room) \<in> set (Rooms (hub ?w'))" for rid room
  proof (cases "room = nrooms w")
    case True
    with new assms(2) show ?thesis by (simp add: reg) (simp add: registered_def)
  next
    case False
    with that f set_update_subset [of "''room_'' @ token" "nrooms w" "Rooms (hub w)"]
    have "(rid, room) \<in> set (Rooms (hub w))" by auto
    with assms(1) False old show ?thesis by (auto simp: registry_inv_iff reg)
  qed
  then show ?thesis by (auto simp: registry_inv_iff)
qed

lemma registry_inv_JoinRoom:
  assumes "registry_inv w" and "registered w agent" and "JoinRoom w roomID agent = Inr (room, w')"
  shows "registry_inv w'"
proof -
  from assms(3) have w': "w' = w\<lparr>rooms := (rooms w)(room := (rooms w room)\<lparr>Agent := agent, Status := RoomActive\<rparr>)\<rparr>"
    and g: "map_of (Rooms (hub w)) roomID = Some room"
    by (auto simp: JoinRoom_def split: option.splits if_splits)
  from g have mem: "(roomID, room) \<in> set (Rooms (hub w))" by (rule map_of_SomeD)
  have reg: "registered w' p = registered w p" for p
    by (rule registered_eq) (simp_all add: w')
  have "registered w' (Customer (rooms w' r)) \<and> registered w' (Agent (rooms w' r))"
    if "(rid, r) \<in> set (Rooms (hub w'))" for rid r
  proof -
    from that have m: "(rid, r) \<in> set (Rooms (hub w))" by (simp add: w')
    from registry_invD [OF assms(1) m]
    have o: "registered w (Customer (rooms w r))" "registered w (Agent (rooms w r))"
      by simp_all
    show ?thesis
    proof (cases "r = room")
      case True
      with o assms(2) show ?thesis by (simp add: reg) (simp add: w')
    next
      case False
      with o show ?thesis by (simp add: reg) (simp add: w')
    qed
  qed
  then show ?thesis by (rule registry_invI)
qed

lemma registry_inv_RemoveClient:
  assumes "registry_inv w" and "\<not> token_in_use w token"
  shows "registry_inv (RemoveClient w token)"
proof -
  let ?w' = "RemoveClient w token"
  have reg: "registered ?w' p" if "registered w p" "\<not> has_token w p token" for p
  proof (cases p)
    case None
    then show ?thesis by (simp add: registered_def)
  next
    case (Some c)
    with that have "Token (clients w c) \<noteq> token" "map_of (Clients (hub w)) (Token (clients w c)) \<noteq> None"
      by (simp_all add: has_token_def registered_def GetClient_def)
    with Some show ?thesis
      by (simp add: registered_def GetClient_def RemoveClient_def)
  qed
  have "registered ?w' (Customer (rooms ?w' r)) \<and> registered ?w' (Agent (rooms ?w' r))"
    if "(rid, r) \<in> set (Rooms (hub ?w'))" for rid r
  proof -
    from that have m: "(rid, r) \<in> set (Rooms (hub w))" by (simp add: RemoveClient_def)
    with assms(2) have "\<not> has_token w (Customer (rooms w r)) token" "\<not> has_token w (Agent (rooms w r)) token"
      by (auto simp: token_in_use_iff)
    moreover from assms(1) m have "registered w (Customer (rooms w r))" "registered w (Agent (rooms w r))"
      by (auto simp: registry_inv_iff)
    ultimately have "registered ?w' (Customer (rooms w r)) \<and> registered ?w' (Agent (rooms w r))"
      by (simp add: reg)
    then show ?thesis by (simp add: RemoveClient_def)
  qed
  then show ?thesis by (auto simp: registry_inv_iff)
qed

text \<open>
  Claim C7, as stated, fails. RemoveClient deletes the participant entry without looking at
  the rooms: after the customer has started a chat, removing the customer's token leaves
  the room of the registry with a customer whose token has no participant entry.
\<close>

theorem RemoveClient_breaks_registry_inv:
  "reachable demo2 \<and> registry_inv demo2 \<and> token_in_use demo2 customer_token
   \<and> \<not> registry_inv (RemoveClient demo2 customer_token)"
proof -
  have "registry_inv demo2 \<and> token_in_use demo2 customer_token
      \<and> \<not> registry_inv (RemoveClient demo2 customer_token)"
    by (simp add: registry_inv_def token_in_use_def has_token_def registered_def
        demo2_def demo1_def demo0_def model_defs demo_consts)
  with demo_reachable(1) show ?thesis by simp
qed

text \<open>
  Claim C7, amended. The invariant (every room of the registry whose customer or agent is
  set has that participant's token as a key of the participant map) holds in every state
  the server reaches; no handler calls RemoveClient. Of the registry operations, CreateRoom
  preserves it when the customer it is given is nil or registered, JoinRoom when the agent
  it is given is nil or registered, and RemoveClient when no room of the registry has a
  customer or agent with the removed token.
\<close>

theorem registry_inv_preserved:
  "(reachable w \<longrightarrow> registry_inv w)
   \<and> (registry_inv w \<and> registered w customer \<longrightarrow> registry_inv (snd (CreateRoom w token customer)))
   \<and> (registry_inv w \<and> registered w agent \<and> JoinRoom w roomID agent = Inr (room, w')
        \<longrightarrow> registry_inv w')
   \<and> (registry_inv w \<and> \<not> token_in_use w token' \<longrightarrow> registry_inv (RemoveClient w token'))"
proof (intro conjI impI)
  assume "reachable w"
  then show "registry_inv w" by (rule reachable_registry_inv)
next
  assume "registry_inv w \<and> registered w customer"
  then show "registry_inv (snd (CreateRoom w token customer))"
    by (simp add: registry_inv_CreateRoom)
next
  assume "registry_inv w \<and> registered w agent \<and> JoinRoom w roomID agent = Inr (room, w')"
  then show "registry_inv w'"
    using registry_inv_JoinRoom [of w agent roomID room w'] by simp
next
  assume "registry_inv w \<and> \<not> token_in_use w token'"
  then show "registry_inv (RemoveClient w token')"
    by (simp add: registry_inv_RemoveClient)
qed

theorem registry_inv_preserved_witness:
  "registry_inv demo3
   \<and> registry_inv (snd (CreateRoom demo2 ''ffffffffffffffffffffffffffffffff'' (Some 1)))
   \<and> JoinRoom demo2 room_id (Some 0) = Inr (0, demo3)
   \<and> \<not> token_in_use demo2 agent_token
   \<and> registry_inv (RemoveClient demo2 agent_token)"
proof -
  have r2: "registry_inv demo2" and cu: "registered demo2 (Some 1)" and ag: "registered demo2 (Some 0)"
    and nu: "\<not> token_in_use demo2 agent_token"
    and j: "JoinRoom demo2 room_id (Some 0) = Inr (0, demo3)"
    by (simp_all add: registry_inv_def token_in_use_def has_token_def registered_def
        demo3_def demo2_def demo1_def demo0_def model_defs demo_consts)
  note T = registry_inv_preserved [where w = demo2 and customer = "Some 1" and agent = "Some 0"
      and roomID = room_id and room = 0 and w' = demo3 and token' = agent_token
      and token = "''ffffffffffffffffffffffffffffffff''"]
  note T3 = registry_inv_preserved [where w = demo3]
  from T3 demo_reachable(2) have a: "registry_inv demo3" by blast
  from T r2 cu have b: "registry_inv (snd (CreateRoom demo2 ''ffffffffffffffffffffffffffffffff'' (Some 1)))"
    by blast
  from T r2 nu have c: "registry_inv (RemoveClient demo2 agent_token)" by blast
  from a b c j nu show ?thesis by blast
qed

section \<open>The websocket loop\<close>


text \<open>
  Claim C6. When the rate limiter rejects the sender of an inbound message, the loop
  iteration writes the error notice \<open>rate limit exceeded\<close> to the sender's connection and
  continues: the only changes of the state are that frame on the wire and the limiter's
  pruned timestamps. No room changes (the message is not appended to the history), no
  client, hub, timer or session changes, nothing is written to the counterpart, and the
  read loop goes on with the next frame.
\<close>

theorem rate_limited_message_dropped:
  assumes "\<not> fst (Allow (limiter w) (Token (clients w (s_client s))) now now)"
  shows "(let w' = w\<lparr>limiter := snd (Allow (limiter w) (Token (clients w (s_client s))) now now),
                     wire := wire w @ [(c, OutError ''rate limit exceeded'')]\<rparr>
          in ws_iteration w c s (Payload content) now = (Continue, w')
             \<and> rooms w' = rooms w \<and> clients w' = clients w \<and> hub w' = hub w
             \<and> timers w' = timers w \<and> sessions w' = sessions w
             \<and> ws_loop w c s ((Payload content, now) # rest) = ws_loop w' c s rest
             \<and> (sessions w c = Some s \<longrightarrow> ws_receive w c (Payload content) now = w'))"
proof -
  obtain ok lim where a: "Allow (limiter w) (Token (clients w (s_client s))) now now = (ok, lim)"
    by (cases "Allow (limiter w) (Token (clients w (s_client s))) now now")
  with assms have "\<not> ok" by simp
  with a have i: "ws_iteration w c s (Payload content) now =
      (Continue, w\<lparr>limiter := lim, wire := wire w @ [(c, OutError ''rate limit exceeded'')]\<rparr>)"
    by (simp add: ws_iteration_def Let_def conn_write_def)
  with a show ?thesis
    by (simp add: Let_def ws_receive_def)
qed

theorem rate_limited_message_dropped_witness:
  "\<not> fst (Allow (limiter demo_two_sent) (Token (clients demo_two_sent 1)) (3 * Second) (3 * Second))
   \<and> sessions demo_two_sent 1 = Some \<lparr>s_client = 1, s_room = 0, s_recipient = Some 0\<rparr>
   \<and> ws_receive demo_two_sent 1 (Payload ''Ola'') (3 * Second) =
       demo_two_sent\<lparr>limiter := snd (Allow (limiter demo_two_sent) customer_token (3 * Second) (3 * Second)),
                      wire := wire demo_two_sent @ [(1, OutError ''rate limit exceeded'')]\<rparr>
   \<and> Messages (rooms (ws_receive demo_two_sent 1 (Payload ''Ola'') (3 * Second)) 0)
       = Messages (rooms demo_two_sent 0)"
proof -
  let ?s = "\<lparr>s_client = 1, s_room = 0, s_recipient = Some 0\<rparr>"
  have h: "\<not> fst (Allow (limiter demo_two_sent) (Token (clients demo_two_sent (s_client ?s))) (3 * Second) (3 * Second))"
    by (simp add: demo_two_sent_eq demo0_def model_defs demo_consts)
  have ss: "sessions demo_two_sent 1 = Some ?s" and tk: "Token (clients demo_two_sent 1) = customer_token"
    by (simp_all add: demo_two_sent_eq)
  from rate_limited_message_dropped [OF h, of 1 "''Ola''" "[]"] ss tk h show ?thesis
    by (simp add: Let_def)
qed




section \<open>Ending a chat\<close>

text \<open>
  Claim C9. An end-chat request with a non-empty bearer token of a registered participant
  for a known room takes the second branch whenever the room has no customer with the
  caller's token: the answer carries the reason \<open>agent_left\<close>, the room's status becomes
  closing, its agent slot is cleared, a new timer due five minutes later is armed for the
  room and recorded as its close timer, the room stays registered, and a connected customer
  is told that the agent left. Nothing is assumed about the room's status or about the
  caller being the room's agent or a member at all.
\<close>

theorem end_chat_by_other_token_closes_room:
  assumes "TrimPrefix authorization ''Bearer '' \<noteq> []"
    and "GetClient w (TrimPrefix authorization ''Bearer '') = Some client"
    and "GetRoom w roomID = Some room"
    and "case Customer (rooms w room) of None \<Rightarrow> True
         | Some cu \<Rightarrow> Token (clients w cu) \<noteq> Token (clients w client)"
  shows "(let (resp, w') = handleEndChat w ''POST'' authorization (Some roomID) now
          in resp = ChatEndedResponse (ID (rooms w room)) ''agent_left''
             \<and> Status (rooms w' room) = RoomClosing
             \<and> Agent (rooms w' room) = None
             \<and> CloseTimer (rooms w' room) = Some (ntimers w)
             \<and> timers w' (ntimers w) = Some \<lparr>due = now + 5 * Minute, timer_room = room\<rparr>
             \<and> ntimers w' = Suc (ntimers w)
             \<and> GetRoom w' roomID = Some room
             \<and> wire w' = wire w @
                  (case Customer (rooms w room) of
                     None \<Rightarrow> []
                   | Some cu \<Rightarrow>
                       (case Connection (clients w cu) of
                          None \<Rightarrow> []
                        | Some c \<Rightarrow> [(c, OutChatEnded (ID (rooms w room)) ''agent_left'')])))"
  using assms
  by (auto simp: handleEndChat_def Let_def room_set_def AfterFunc_def conn_write_def GetRoom_def
      split: option.splits)

theorem end_chat_by_other_token_closes_room_witness:
  "TrimPrefix (bearer agent_token) ''Bearer '' \<noteq> []
   \<and> GetClient demo2 (TrimPrefix (bearer agent_token) ''Bearer '') = Some 0
   \<and> GetRoom demo2 room_id = Some 0
   \<and> Customer (rooms demo2 0) = Some 1 \<and> Agent (rooms demo2 0) = None
   \<and> Status (rooms demo2 0) = RoomWaiting
   \<and> Token (clients demo2 1) \<noteq> Token (clients demo2 0)
   \<and> (let (resp, w') = handleEndChat demo2 ''POST'' (bearer agent_token) (Some room_id) 0
       in resp = ChatEndedResponse room_id ''agent_left''
          \<and> Status (rooms w' 0) = RoomClosing \<and> Agent (rooms w' 0) = None
          \<and> CloseTimer (rooms w' 0) = Some 0
          \<and> timers w' 0 = Some \<lparr>due = 5 * Minute, timer_room = 0\<rparr>)"
proof -
  have h: "TrimPrefix (bearer agent_token) ''Bearer '' \<noteq> []"
    "GetClient demo2 (TrimPrefix (bearer agent_token) ''Bearer '') = Some 0"
    "GetRoom demo2 room_id = Some 0"
    and cu: "Customer (rooms demo2 0) = Some 1" and tk: "Token (clients demo2 1) \<noteq> Token (clients demo2 0)"
    and o: "Agent (rooms demo2 0) = None" "Status (rooms demo2 0) = RoomWaiting"
      "ID (rooms demo2 0) = room_id" "ntimers demo2 = 0"
    by (simp_all add: demo2_def demo1_def demo0_def model_defs demo_consts)
  have c: "case Customer (rooms demo2 0) of None \<Rightarrow> True
         | Some cu \<Rightarrow> Token (clients demo2 cu) \<noteq> Token (clients demo2 0)"
    using cu tk by simp
  from end_chat_by_other_token_closes_room [OF h c, of 0] h cu tk o show ?thesis
    by (auto simp: Let_def split: prod.splits)
qed

section \<open>Preparing an outbound message\<close>

lemma Translate_Some_cached:
  "Translate t ol txt f to n1 n2 = (Some tr, t', ol') \<Longrightarrow>
   \<exists>e. cache t' (cache_key txt f to) = Some e \<and> entry_text e = tr"
  by (auto simp: Translate_def generate_def Let_def split: option.splits if_splits)

text \<open>
  Claim C1, as stated, fails on the translated content. The code fills the translated
  content only for a recipient that is not the room's customer: the customer's \<open>Ola\<close> is
  delivered to the agent with the original as content and \<open>Hello\<close> as translated content,
  in the call of prepareMessage and on the wire when the agent connects.
\<close>

theorem agent_receives_translated_content:
  "Customer (rooms demo3 0) = Some 1 \<and> Agent (rooms demo3 0) = Some 0
   \<and> fst (prepareMessage demo3 0 1 0 ''Ola'' 0) =
       \<lparr>Type = ''message'', RoomID = room_id, From = ''Alice'', Content = ''Ola'',
        TranslatedContent = ''Hello''\<rparr>
   \<and> Connection (clients demo5 0) = Some 0
   \<and> wire demo5 =
       [(0, OutMessage \<lparr>Type = ''message'', RoomID = room_id, From = ''Alice'', Content = ''Ola'',
                        TranslatedContent = ''Hello''\<rparr>)]"
proof -
  have "Customer (rooms demo3 0) = Some 1 \<and> Agent (rooms demo3 0) = Some 0
   \<and> fst (prepareMessage demo3 0 1 0 ''Ola'' 0) =
       \<lparr>Type = ''message'', RoomID = room_id, From = ''Alice'', Content = ''Ola'',
        TranslatedContent = ''Hello''\<rparr>"
    by (simp add: demo3_eq demo0_def model_defs demo_consts)
  moreover have "Connection (clients demo5 0) = Some 0
   \<and> wire demo5 =
       [(0, OutMessage \<lparr>Type = ''message'', RoomID = room_id, From = ''Alice'', Content = ''Ola'',
                        TranslatedContent = ''Hello''\<rparr>)]"
    by (simp add: demo5_eq)
  ultimately show ?thesis by simp
qed

text \<open>
  Claim C1, amended. For every outbound record prepareMessage builds, with the languages
  read after a possible detection of the sender's language: the translated content is
  populated only when the recipient is not the room's customer and the two languages are
  known and differ; a recipient that is not the customer always gets the original as
  content; the customer gets an empty translated content, and as content either the
  original or, when the languages are known and differ, the trimmed translation that is
  cached for this text and language pair; when a language is unknown or the two are equal
  the record carries the original content only; and when both languages are known
  beforehand and differ and the translation succeeds, the customer gets the trimmed
  translation as content and any other recipient gets it as translated content.
\<close>

theorem prepareMessage_translation:
  "(let (msg, w') = prepareMessage w room sender recipient content now;
        ls = Language (clients w' sender); lr = Language (clients w' recipient)
    in (TranslatedContent msg \<noteq> [] \<longrightarrow>
          Some recipient \<noteq> Customer (rooms w room) \<and> ls \<noteq> [] \<and> lr \<noteq> [] \<and> ls \<noteq> lr)
       \<and> (Some recipient \<noteq> Customer (rooms w room) \<longrightarrow> Content msg = content)
       \<and> (Some recipient = Customer (rooms w room) \<longrightarrow>
            TranslatedContent msg = []
            \<and> (Content msg = content
                \<or> ls \<noteq> [] \<and> lr \<noteq> [] \<and> ls \<noteq> lr
                  \<and> (\<exists>e. cache (translator w') (cache_key content ls lr) = Some e
                         \<and> Content msg = TrimSpace (entry_text e))))
       \<and> (ls = [] \<or> lr = [] \<or> ls = lr \<longrightarrow> Content msg = content \<and> TranslatedContent msg = [])
       \<and> (\<forall>tr. Language (clients w sender) \<noteq> [] \<and> Language (clients w recipient) \<noteq> []
              \<and> Language (clients w sender) \<noteq> Language (clients w recipient)
              \<and> fst (Translate (translator w) (ollama w) content (Language (clients w sender))
                       (Language (clients w recipient)) now now) = Some tr \<longrightarrow>
            (if Some recipient = Customer (rooms w room)
             then Content msg = TrimSpace tr \<and> TranslatedContent msg = []
             else Content msg = content \<and> TranslatedContent msg = TrimSpace tr)))"
  unfolding prepareMessage_def Let_def DetectLanguage_def
  by (auto simp: client_set_def split: option.splits prod.splits sum.splits if_splits
      dest: Translate_Some_cached)

theorem prepareMessage_translation_witness:
  "Some (0::nat) \<noteq> Customer (rooms demo3 0)
   \<and> TranslatedContent (fst (prepareMessage demo3 0 1 0 ''Ola'' 0)) = ''Hello''
   \<and> Content (fst (prepareMessage demo3 0 1 0 ''Ola'' 0)) = ''Ola''
   \<and> Language (clients (snd (prepareMessage demo3 0 1 0 ''Ola'' 0)) 1)
       \<noteq> Language (clients (snd (prepareMessage demo3 0 1 0 ''Ola'' 0)) 0)
   \<and> Some (1::nat) = Customer (rooms demo5 0)
   \<and> fst (Translate (translator demo5) (ollama demo5) ''Hi'' ''en'' ''pt'' Second Second) = Some ''Oi''
   \<and> Content (fst (prepareMessage demo5 0 0 1 ''Hi'' Second)) = TrimSpace ''Oi''
   \<and> TranslatedContent (fst (prepareMessage demo5 0 0 1 ''Hi'' Second)) = []
   \<and> Language (clients (snd (prepareMessage demo3 0 0 1 ''Hi'' 0)) 1) = []
   \<and> Content (fst (prepareMessage demo3 0 0 1 ''Hi'' 0)) = ''Hi''
   \<and> TranslatedContent (fst (prepareMessage demo3 0 0 1 ''Hi'' 0)) = []"
proof -
  note T1 = prepareMessage_translation [where w = demo3 and room = 0 and sender = 1
      and recipient = 0 and content = "''Ola''" and now = 0, unfolded Let_def split_beta]
  note T2 = prepareMessage_translation [where w = demo5 and room = 0 and sender = 0
      and recipient = 1 and content = "''Hi''" and now = Second, unfolded Let_def split_beta]
  note T3 = prepareMessage_translation [where w = demo3 and room = 0 and sender = 0
      and recipient = 1 and content = "''Hi''" and now = 0, unfolded Let_def split_beta]
  have a: "Some (0::nat) \<noteq> Customer (rooms demo3 0)"
    by (simp add: demo3_eq)
  have b: "TranslatedContent (fst (prepareMessage demo3 0 1 0 ''Ola'' 0)) = ''Hello''"
    by (simp add: demo3_eq demo0_def model_defs demo_consts)
  then have b0: "TranslatedContent (fst (prepareMessage demo3 0 1 0 ''Ola'' 0)) \<noteq> []"
    by simp
  have l3: "Language (clients (snd (prepareMessage demo3 0 0 1 ''Hi'' 0)) 1) = []"
    by (simp add: demo3_eq demo0_def model_defs demo_consts)
  have c: "Some (1::nat) = Customer (rooms demo5 0)"
    by (simp add: demo5_eq)
  have tr: "fst (Translate (translator demo5) (ollama demo5) ''Hi'' ''en'' ''pt'' Second Second) = Some ''Oi''"
    by (simp add: demo5_eq demo0_def model_defs demo_consts)
  have p: "Language (clients demo5 0) \<noteq> [] \<and> Language (clients demo5 1) \<noteq> []
      \<and> Language (clients demo5 0) \<noteq> Language (clients demo5 1)
      \<and> fst (Translate (translator demo5) (ollama demo5) ''Hi'' (Language (clients demo5 0))
               (Language (clients demo5 1)) Second Second) = Some ''Oi''"
    by (simp add: demo5_eq demo0_def model_defs demo_consts)
  have a': "Content (fst (prepareMessage demo3 0 1 0 ''Ola'' 0)) = ''Ola''"
    by (rule T1 [THEN conjunct2, THEN conjunct1, rule_format, OF a])
  have b': "Language (clients (snd (prepareMessage demo3 0 1 0 ''Ola'' 0)) 1)
       \<noteq> Language (clients (snd (prepareMessage demo3 0 1 0 ''Ola'' 0)) 0)"
    using T1 [THEN conjunct1, rule_format, OF b0] by (elim conjE)
  have c': "Content (fst (prepareMessage demo5 0 0 1 ''Hi'' Second)) = TrimSpace ''Oi''
      \<and> TranslatedContent (fst (prepareMessage demo5 0 0 1 ''Hi'' Second)) = []"
    using T2 [THEN conjunct2, THEN conjunct2, THEN conjunct2, THEN conjunct2, rule_format, OF p]
    by (simp only: if_P [OF c])
  have d': "Content (fst (prepareMessage demo3 0 0 1 ''Hi'' 0)) = ''Hi''
      \<and> TranslatedContent (fst (prepareMessage demo3 0 0 1 ''Hi'' 0)) = []"
    by (rule T3 [THEN conjunct2, THEN conjunct2, THEN conjunct2, THEN conjunct1, rule_format,
          OF disjI2 [OF disjI1 [OF l3]]])
  from a b a' b' c tr c' l3 d' show ?thesis
    by (intro conjI) (erule conjunct1 conjunct2 | assumption)+
qed

section \<open>The close timer against the reopen\<close>

text \<open>
  Claim C8 on the example run. The agent ends the chat twice, so two close timers are armed
  and the room records the second only. The customer's message reopens the room: the
  recorded timer is stopped and cleared and the room is waiting, still registered, while
  the first timer stays armed. When that timer is due its callback does not look at the
  room's status: it marks the reopened room closed, removes it from the registry and tells
  the customer that the chat is closed.
\<close>

theorem stale_deadline_closes_reopened_room:
  "reachable demo_fired
   \<and> CloseTimer (rooms demo_ended_twice 0) = Some 1
   \<and> timers demo_ended_twice 0 = Some \<lparr>due = 10 * Second + 5 * Minute, timer_room = 0\<rparr>
   \<and> timers demo_ended_twice 1 = Some \<lparr>due = 20 * Second + 5 * Minute, timer_room = 0\<rparr>
   \<and> Status (rooms demo_reopened 0) = RoomWaiting
   \<and> CloseTimer (rooms demo_reopened 0) = None
   \<and> GetRoom demo_reopened room_id = Some 0
   \<and> timers demo_reopened 1 = None
   \<and> timers demo_reopened 0 = Some \<lparr>due = 10 * Second + 5 * Minute, timer_room = 0\<rparr>
   \<and> Status (rooms demo_fired 0) = RoomClosed
   \<and> GetRoom demo_fired room_id = None
   \<and> wire demo_fired = wire demo_reopened @ [(1, OutChatEnded room_id ''closed'')]"
proof -
  have "reachable demo_fired"
    unfolding demo_fired_def by (rule reachable.r_fire) (rule demo_reachable(5))
  then show ?thesis
    by (simp add: demo_ended_twice_eq demo_reopened_eq demo_fired_eq GetRoom_def)
qed

text \<open>
  The same outcome with a single deadline, when the timer fires between the handler's test
  of the reopen condition and the body it guards (the room's fields are read and written
  without a lock): after Bob's first end request the reopen condition holds for Alice; the
  timer fires when it is due and closes the room; the body of the reopen then sets the
  status of the removed room back to waiting.
\<close>

lemma reopen_after_fire:
  "reopen_guard demo_ended 0 1
   \<and> Status (rooms (timer_fire demo_ended 0 (10 * Second + 5 * Minute)) 0) = RoomClosed
   \<and> GetRoom (timer_fire demo_ended 0 (10 * Second + 5 * Minute)) room_id = None
   \<and> Status (rooms (reopen (timer_fire demo_ended 0 (10 * Second + 5 * Minute)) 0) 0) = RoomWaiting
   \<and> GetRoom (reopen (timer_fire demo_ended 0 (10 * Second + 5 * Minute)) 0) room_id = None"
  by (simp add: demo_ended_def demo5_eq demo0_def model_defs demo_consts)

end
